theory Spec2Isabelle
  imports Main "HOL-Library.Word"
begin

unbundle bit_operations_syntax

section \<open>The cuckoo cache table (Common/Source/DPU/CacheTable.c)\<close>

text \<open>
  The header \<^verbatim>\<open>CacheTable.h\<close> and the hash functions are not part of the sources, so
  the build-time constants and the two hash macros are the fields of a configuration
  record that every operation takes: \<^verbatim>\<open>CACHE_TABLE_BUCKET_COUNT_POWER\<close>,
  \<^verbatim>\<open>CACHE_TABLE_BUCKET_SIZE\<close>, \<^verbatim>\<open>CACHE_TABLE_CAPACITY\<close>,
  \<^verbatim>\<open>CACHE_TABLE_OCC_GRANULARITY\<close>, \<^verbatim>\<open>HASH_FUNCTION1\<close> and \<^verbatim>\<open>HASH_FUNCTION2\<close>.
  Keys are 64-bit, hash values 32-bit (the bucket mask is a \<^verbatim>\<open>uint32_t\<close>).
\<close>

type_synonym KeyT = "64 word"
type_synonym ValueT = "64 word"
type_synonym HashValueT = "32 word"

datatype OccGranularity = CACHE_TABLE_OCC_GRANULARITY_BUCKET | CACHE_TABLE_OCC_GRANULARITY_ITEM

record CacheConfig =
  CACHE_TABLE_BUCKET_COUNT_POWER :: nat
  CACHE_TABLE_BUCKET_SIZE :: nat
  CACHE_TABLE_CAPACITY :: nat
  CACHE_TABLE_OCC_GRANULARITY :: OccGranularity
  HASH_FUNCTION1 :: "KeyT \<Rightarrow> HashValueT"
  HASH_FUNCTION2 :: "KeyT \<Rightarrow> HashValueT"

record CacheItemT =
  Key :: KeyT
  Value :: ValueT

text \<open>An element: the item, its two hashes, and the per-element flag of the item
  granularity (always clear in the bucket granularity, where the field does not exist).\<close>

record CacheElementT =
  Item :: CacheItemT
  Hash1 :: HashValueT
  Hash2 :: HashValueT
  EOcc :: bool

record CacheBucketT =
  HashValues :: "HashValueT list"
  Elements :: "CacheElementT list"
  Occ :: bool

type_synonym CacheTableT = "CacheBucketT list"

definition CACHE_TABLE_BUCKET_COUNT :: "CacheConfig \<Rightarrow> nat" where
  "CACHE_TABLE_BUCKET_COUNT cfg = 2 ^ CACHE_TABLE_BUCKET_COUNT_POWER cfg"

definition ZeroElement :: CacheElementT where
  "ZeroElement = \<lparr>Item = \<lparr>Key = 0, Value = 0\<rparr>, Hash1 = 0, Hash2 = 0, EOcc = False\<rparr>"

definition ZeroBucket :: "CacheConfig \<Rightarrow> CacheBucketT" where
  "ZeroBucket cfg = \<lparr>HashValues = replicate (CACHE_TABLE_BUCKET_SIZE cfg) 0,
                     Elements = replicate (CACHE_TABLE_BUCKET_SIZE cfg) ZeroElement,
                     Occ = False\<rparr>"

text \<open>\<^verbatim>\<open>InitCacheTable\<close>: every bucket is allocated and zeroed.\<close>

definition InitCacheTable :: "CacheConfig \<Rightarrow> CacheTableT" where
  "InitCacheTable cfg = replicate (CACHE_TABLE_BUCKET_COUNT cfg) (ZeroBucket cfg)"

text \<open>\<^verbatim>\<open>hash & mask\<close> with \<^verbatim>\<open>mask = CACHE_TABLE_BUCKET_COUNT - 1\<close>.\<close>

definition bucketPos :: "CacheConfig \<Rightarrow> HashValueT \<Rightarrow> nat" where
  "bucketPos cfg h = unat (h AND (word_of_nat (CACHE_TABLE_BUCKET_COUNT cfg) - 1))"

definition setOcc :: "CacheConfig \<Rightarrow> bool \<Rightarrow> CacheBucketT \<Rightarrow> CacheBucketT" where
  "setOcc cfg v b =
     (if CACHE_TABLE_OCC_GRANULARITY cfg = CACHE_TABLE_OCC_GRANULARITY_BUCKET
      then b\<lparr>Occ := v\<rparr> else b)"

text \<open>The hashes of a key as every operation computes them: the second hash is the
  complement of the first when the two functions collide.\<close>

definition KeyHash1 :: "CacheConfig \<Rightarrow> KeyT \<Rightarrow> HashValueT" where
  "KeyHash1 cfg k = HASH_FUNCTION1 cfg k"

definition KeyHash2 :: "CacheConfig \<Rightarrow> KeyT \<Rightarrow> HashValueT" where
  "KeyHash2 cfg k =
     (if HASH_FUNCTION1 cfg k = HASH_FUNCTION2 cfg k then NOT (HASH_FUNCTION1 cfg k)
      else HASH_FUNCTION2 cfg k)"

subsection \<open>AddToCacheTable\<close>

datatype SlotFound = EmptySlot nat | SameKey nat

text \<open>The scan of one bucket in the insertion loop, over the slots \<open>es\<close> in order: the
  first slot whose stamp is zero, or whose stamp is the carrier's first hash and whose
  key is the carrier's.\<close>

fun AddScan :: "CacheBucketT \<Rightarrow> CacheElementT \<Rightarrow> nat list \<Rightarrow> SlotFound option" where
  "AddScan b carrier [] = None"
| "AddScan b carrier (e # es) =
     (if HashValues b ! e = 0 then Some (EmptySlot e)
      else if HashValues b ! e = Hash1 carrier
              \<and> Key (Item (Elements b ! e)) = Key (Item carrier) then Some (SameKey e)
      else AddScan b carrier es)"

text \<open>\<^verbatim>\<open>memcpy(targetElement, carrier, sizeof(CacheElementT))\<close> followed, in the item
  granularity, by \<^verbatim>\<open>targetElement->Occ = 0\<close>.\<close>

definition storeElement :: "CacheConfig \<Rightarrow> CacheElementT \<Rightarrow> CacheElementT" where
  "storeElement cfg carrier =
     (if CACHE_TABLE_OCC_GRANULARITY cfg = CACHE_TABLE_OCC_GRANULARITY_ITEM
      then carrier\<lparr>EOcc := False\<rparr> else carrier)"

text \<open>\<^verbatim>\<open>memcpy(victim, targetElement, sizeof(CacheElementT))\<close>, which in the item
  granularity comes after \<^verbatim>\<open>targetElement->Occ = 1\<close>.\<close>

definition loadVictim :: "CacheConfig \<Rightarrow> CacheElementT \<Rightarrow> CacheElementT" where
  "loadVictim cfg target =
     (if CACHE_TABLE_OCC_GRANULARITY cfg = CACHE_TABLE_OCC_GRANULARITY_ITEM
      then target\<lparr>EOcc := True\<rparr> else target)"

definition swapHashes :: "CacheElementT \<Rightarrow> CacheElementT" where
  "swapHashes x = x\<lparr>Hash1 := Hash2 x, Hash2 := Hash1 x\<rparr>"

datatype AddLoopResult =
    Inserted CacheTableT
  | DepthExhausted CacheTableT CacheElementT nat

text \<open>The displacement loop; \<open>n\<close> counts the iterations that are left
  (\<^verbatim>\<open>maxDepth - depth\<close>).\<close>

fun AddLoop :: "CacheConfig \<Rightarrow> nat \<Rightarrow> CacheTableT \<Rightarrow> CacheElementT \<Rightarrow> nat \<Rightarrow> AddLoopResult" where
  "AddLoop cfg 0 tbl carrier offset = DepthExhausted tbl carrier offset"
| "AddLoop cfg (Suc n) tbl carrier offset =
     (let pos = bucketPos cfg (Hash1 carrier);
          targetBucket = setOcc cfg True (tbl ! pos)
      in case AddScan targetBucket carrier [0 ..< CACHE_TABLE_BUCKET_SIZE cfg] of
           Some (EmptySlot e) \<Rightarrow>
             Inserted (tbl[pos := setOcc cfg False
               (targetBucket\<lparr>Elements := (Elements targetBucket)[e := storeElement cfg carrier],
                              HashValues := (HashValues targetBucket)[e := Hash1 carrier]\<rparr>)])
         | Some (SameKey e) \<Rightarrow>
             Inserted (tbl[pos := setOcc cfg False
               (targetBucket\<lparr>Elements := (Elements targetBucket)
                   [e := storeElement cfg ((Elements targetBucket ! e)\<lparr>Item := Item carrier\<rparr>)]\<rparr>)])
         | None \<Rightarrow>
             (let victim = loadVictim cfg (Elements targetBucket ! offset);
                  b' = targetBucket\<lparr>Elements := (Elements targetBucket)[offset := storeElement cfg carrier],
                                      HashValues := (HashValues targetBucket)[offset := Hash1 carrier]\<rparr>;
                  offset' = (if offset + 1 = CACHE_TABLE_BUCKET_SIZE cfg then 0 else offset + 1)
              in AddLoop cfg n (tbl[pos := setOcc cfg False b']) (swapHashes victim) offset'))"

text \<open>The loop that undoes the displacements after the depth bound was hit.\<close>

fun UndoLoop :: "CacheConfig \<Rightarrow> nat \<Rightarrow> CacheTableT \<Rightarrow> CacheElementT \<Rightarrow> nat
    \<Rightarrow> CacheTableT \<times> CacheElementT \<times> nat" where
  "UndoLoop cfg 0 tbl carrier offset = (tbl, carrier, offset)"
| "UndoLoop cfg (Suc n) tbl carrier offset =
     (let pos = bucketPos cfg (Hash2 carrier);
          offset' = (if offset = 0 then CACHE_TABLE_BUCKET_SIZE cfg - 1 else offset - 1);
          targetBucket = setOcc cfg True (tbl ! pos);
          carrier' = swapHashes carrier;
          victim = loadVictim cfg (Elements targetBucket ! offset');
          b' = targetBucket\<lparr>Elements := (Elements targetBucket)[offset' := storeElement cfg carrier'],
                              HashValues := (HashValues targetBucket)[offset' := Hash2 carrier']\<rparr>
      in UndoLoop cfg n (tbl[pos := setOcc cfg False b']) victim offset')"

definition maxDepth :: "CacheConfig \<Rightarrow> nat" where
  "maxDepth cfg = min (CACHE_TABLE_BUCKET_COUNT_POWER cfg * 4) (CACHE_TABLE_CAPACITY cfg)"

datatype AddResult =
    AddOk CacheTableT
  | AddFull CacheTableT
  | AddAssertFailed CacheTableT

text \<open>\<^verbatim>\<open>AddToCacheTable\<close>: \<open>AddOk\<close> is the return value 0, \<open>AddFull\<close> the return value -1
  after the undo loop, \<open>AddAssertFailed\<close> the failure of the closing
  \<^verbatim>\<open>assert(memcmp(&carrier->Item, Item, sizeof(CacheItemT)) == 0)\<close>.\<close>

definition AddToCacheTable :: "CacheConfig \<Rightarrow> CacheTableT \<Rightarrow> CacheItemT \<Rightarrow> AddResult" where
  "AddToCacheTable cfg tbl item =
     (let carrier = \<lparr>Item = item, Hash1 = KeyHash1 cfg (Key item),
                     Hash2 = KeyHash2 cfg (Key item), EOcc = False\<rparr>
      in case AddLoop cfg (maxDepth cfg) tbl carrier 0 of
           Inserted tbl' \<Rightarrow> AddOk tbl'
         | DepthExhausted tbl' carrier' offset \<Rightarrow>
             (case UndoLoop cfg (maxDepth cfg) tbl' carrier' offset of
                (tbl'', carrier'', _) \<Rightarrow>
                  if Item carrier'' = item then AddFull tbl'' else AddAssertFailed tbl''))"

subsection \<open>DeleteFromCacheTable\<close>

text \<open>The scan of a bucket for a stamp equal to \<open>h\<close> whose element has the key.\<close>

fun KeyScan :: "CacheBucketT \<Rightarrow> HashValueT \<Rightarrow> KeyT \<Rightarrow> nat list \<Rightarrow> nat option" where
  "KeyScan b h k [] = None"
| "KeyScan b h k (e # es) =
     (if HashValues b ! e = h \<and> Key (Item (Elements b ! e)) = k then Some e
      else KeyScan b h k es)"

text \<open>\<^verbatim>\<open>memset(targetElement, 0, sizeof(CacheElementT)); hashVector[e] = 0\<close>.\<close>

definition clearSlot :: "CacheBucketT \<Rightarrow> nat \<Rightarrow> CacheBucketT" where
  "clearSlot b e = b\<lparr>Elements := (Elements b)[e := ZeroElement],
                     HashValues := (HashValues b)[e := 0]\<rparr>"

definition DeleteFromCacheTable :: "CacheConfig \<Rightarrow> CacheTableT \<Rightarrow> KeyT \<Rightarrow> CacheTableT" where
  "DeleteFromCacheTable cfg tbl k =
     (let hash1 = HASH_FUNCTION1 cfg k;
          pos1 = bucketPos cfg hash1;
          b1 = setOcc cfg True (tbl ! pos1)
      in case KeyScan b1 hash1 k [0 ..< CACHE_TABLE_BUCKET_SIZE cfg] of
           Some e \<Rightarrow> tbl[pos1 := setOcc cfg False (clearSlot b1 e)]
         | None \<Rightarrow>
             (let tbl1 = tbl[pos1 := setOcc cfg False b1];
                  hash2 = KeyHash2 cfg k;
                  pos2 = bucketPos cfg hash2;
                  b2 = setOcc cfg True (tbl1 ! pos2)
              in case KeyScan b2 hash2 k [0 ..< CACHE_TABLE_BUCKET_SIZE cfg] of
                   Some e \<Rightarrow> tbl1[pos2 := setOcc cfg True (clearSlot b2 e)]
                 | None \<Rightarrow> tbl1[pos2 := setOcc cfg False b2]))"

subsection \<open>LookUpCacheTable\<close>

text \<open>The scan of a bucket in a lookup: in the item granularity an element whose flag
  is set is skipped.\<close>

fun LookUpScan :: "CacheConfig \<Rightarrow> CacheBucketT \<Rightarrow> HashValueT \<Rightarrow> KeyT \<Rightarrow> nat list \<Rightarrow> CacheItemT option" where
  "LookUpScan cfg b h k [] = None"
| "LookUpScan cfg b h k (e # es) =
     (if h = HashValues b ! e
         \<and> \<not> (CACHE_TABLE_OCC_GRANULARITY cfg = CACHE_TABLE_OCC_GRANULARITY_ITEM \<and> EOcc (Elements b ! e))
         \<and> Key (Item (Elements b ! e)) = k
      then Some (Item (Elements b ! e))
      else LookUpScan cfg b h k es)"

definition bucketBusy :: "CacheConfig \<Rightarrow> CacheBucketT \<Rightarrow> bool" where
  "bucketBusy cfg b \<longleftrightarrow>
     CACHE_TABLE_OCC_GRANULARITY cfg = CACHE_TABLE_OCC_GRANULARITY_BUCKET \<and> Occ b"

definition LookUpSecondHash :: "CacheConfig \<Rightarrow> CacheTableT \<Rightarrow> KeyT \<Rightarrow> CacheItemT option" where
  "LookUpSecondHash cfg tbl k =
     (let hash2 = KeyHash2 cfg k;
          b2 = tbl ! bucketPos cfg hash2
      in if bucketBusy cfg b2 then None
         else LookUpScan cfg b2 hash2 k [0 ..< CACHE_TABLE_BUCKET_SIZE cfg])"

text \<open>\<^verbatim>\<open>LookUpCacheTable\<close>: the item found (the C function returns a pointer to it), or
  \<open>None\<close> for the null pointer.\<close>

definition LookUpCacheTable :: "CacheConfig \<Rightarrow> CacheTableT \<Rightarrow> KeyT \<Rightarrow> CacheItemT option" where
  "LookUpCacheTable cfg tbl k =
     (let hash1 = HASH_FUNCTION1 cfg k;
          b1 = tbl ! bucketPos cfg hash1
      in if bucketBusy cfg b1 then LookUpSecondHash cfg tbl k
         else (case LookUpScan cfg b1 hash1 k [0 ..< CACHE_TABLE_BUCKET_SIZE cfg] of
                 Some it \<Rightarrow> Some it
               | None \<Rightarrow> LookUpSecondHash cfg tbl k))"

section \<open>Connections and the data-plane engine (FileBackEnd.c)\<close>

text \<open>
  The headers \<^verbatim>\<open>FileBackEnd.h\<close>, \<^verbatim>\<open>DDSTypes.h\<close> and \<^verbatim>\<open>MsgTypes.h\<close> are not part of the
  sources. The constants and build flags they define, the sizes of the types
  \<^verbatim>\<open>RequestIdT\<close> and \<^verbatim>\<open>ErrorCodeT\<close> and the offsets of the header fields the engine
  reads and writes are the fields of a configuration record. \<^verbatim>\<open>FileIOSizeT\<close> is the
  \<^verbatim>\<open>u32\<close> of the size prefix; \<^verbatim>\<open>RingSizeT\<close> is taken to be \<^verbatim>\<open>int\<close>, the type of the
  variables it is mixed with. The error codes are given as the unsigned values that an
  \<^verbatim>\<open>ErrorCodeT\<close> holds them with.
\<close>

record EngineConfig =
  DDS_REQUEST_RING_BYTES :: int
  DDS_RESPONSE_RING_BYTES :: int
  BACKEND_REQUEST_BUFFER_SIZE :: int
  BACKEND_RESPONSE_BUFFER_SIZE :: int
  DDS_MAX_OUTSTANDING_IO :: nat
  SIZEOF_BuffMsgF2BReqHeader :: int
  SIZEOF_BuffMsgB2FAckHeader :: int
  SIZEOF_RequestIdT :: nat
  SIZEOF_ErrorCodeT :: nat
  OFFSETOF_ReqHeader_RequestId :: int
  OFFSETOF_ReqHeader_Bytes :: int
  OFFSETOF_AckHeader_RequestId :: int
  OFFSETOF_AckHeader_Result :: int
  OFFSETOF_AckHeader_BytesServiced :: int
  BUFF_READ_DATA_SPLIT_STATE_SPLIT :: int
  BUFF_READ_DATA_SPLIT_STATE_NOT_SPLIT :: int
  DDS_ERROR_CODE_IO_PENDING :: int
  DDS_ERROR_CODE_SUCCESS :: int
  RING_BUFFER_RESPONSE_BATCH_ENABLED :: bool
  OPT_FILE_SERVICE_BATCHING :: bool

text \<open>\<^verbatim>\<open>sizeof(FileIOSizeT)\<close>: the size prefix of a record is a \<^verbatim>\<open>u32\<close>.\<close>

definition SIZEOF_FileIOSizeT :: int where
  "SIZEOF_FileIOSizeT = 4"

text \<open>The value of an integer expression once it is converted to \<^verbatim>\<open>unsigned int\<close>
  (\<^verbatim>\<open>FileIOSizeT\<close>) and to \<^verbatim>\<open>int\<close>: the arithmetic of a mixed expression is unsigned
  and wraps at \<open>2 ^ 32\<close>, and the conversion back to \<^verbatim>\<open>int\<close> keeps the bits.\<close>

definition u32 :: "int \<Rightarrow> int" where
  "u32 x = x mod 2 ^ 32"

definition s32 :: "int \<Rightarrow> int" where
  "s32 x = (x + 2 ^ 31) mod 2 ^ 32 - 2 ^ 31"

subsection \<open>The staging buffers\<close>

text \<open>
  A staging buffer is a \<^verbatim>\<open>char*\<close> from \<^verbatim>\<open>malloc\<close>; the code reads and writes it through
  casts at byte offsets. The model keeps the bytes by their offset from the start of the
  buffer. The offsets from the size of the buffer on are the memory behind the
  allocation: the code computes every address as \<^verbatim>\<open>buff + offset\<close> and reads a header
  as one object at \<^verbatim>\<open>buff + offset + sizeof(FileIOSizeT)\<close>, so an access near the end of
  the buffer reaches them. Values are little-endian, and a store keeps the low bytes of
  the value.
\<close>

type_synonym Bytes = "int \<Rightarrow> 8 word"

fun loadLE :: "Bytes \<Rightarrow> int \<Rightarrow> nat \<Rightarrow> int" where
  "loadLE m a 0 = 0"
| "loadLE m a (Suc n) = uint (m a) + 256 * loadLE m (a + 1) n"

fun storeLE :: "Bytes \<Rightarrow> int \<Rightarrow> nat \<Rightarrow> int \<Rightarrow> Bytes" where
  "storeLE m a 0 v = m"
| "storeLE m a (Suc n) v = storeLE (m(a := word_of_int v)) (a + 1) n (v div 256)"

datatype ConnState = CONN_STATE_AVAILABLE | CONN_STATE_OCCUPIED | CONN_STATE_CONNECTED

text \<open>The fields of a request header that the engine reads, and the response header.\<close>

record BuffMsgF2BReqHeader =
  ReqRequestId :: int
  ReqBytes :: int

record BuffMsgB2FAckHeader =
  RequestId :: int
  Result :: int
  BytesServiced :: int

text \<open>A pointer into one of the two staging buffers of a connection, as its offset.\<close>

datatype BufferT = RequestBuffAt int | ResponseBuffAt int

record SplittableBufferT =
  TotalSize :: int
  FirstAddr :: BufferT
  FirstSize :: int
  SecondAddr :: "BufferT option"

text \<open>A request context: \<open>Request\<close> and \<open>Response\<close> point at the request header in the
  request staging buffer and at the response header in the response staging buffer; the
  model keeps their offsets.\<close>

record DataPlaneRequestContext =
  Request :: int
  Response :: int
  DataBuffer :: SplittableBufferT
  IsRead :: bool

text \<open>The work requests of a buffer connection that \<^verbatim>\<open>ibv_post_send\<close> is called with.
  A data request carries the remote address, the local address and the length it was
  given before the call; a meta write carries the value of the word it sends.\<close>

datatype WorkRequest =
    RequestDMAReadMetaWr
  | RequestDMAReadDataWr "64 word" "64 word" int
  | RequestDMAReadDataSplitWr "64 word" "64 word" int
  | RequestDMAWriteMetaWr int
  | ResponseDMAReadMetaWr
  | ResponseDMAWriteDataWr "64 word" "64 word" int
  | ResponseDMAWriteDataSplitWr "64 word" "64 word" int
  | ResponseDMAWriteMetaWr int

text \<open>The calls of \<^verbatim>\<open>SubmitDataPlaneRequest\<close>: one context with its read flag and slot,
  or a batch with its first slot, its size and the slot base.\<close>

datatype Submission =
    SubmitOne nat bool
  | SubmitBatch nat int nat

text \<open>
  A buffer connection. \<open>RequestDMAReadDataBuff\<close> and \<open>ResponseDMAWriteDataBuff\<close> are the
  addresses of the two staging buffers, \<open>RequestDMAReadDataBytes\<close> and
  \<open>ResponseDMAWriteDataBytes\<close> their contents. The two meta staging areas hold the two
  words fetched from the host. \<open>Posted\<close> and \<open>Submitted\<close> record, in order, the calls of
  \<^verbatim>\<open>ibv_post_send\<close> on the connection's queue pair and of \<^verbatim>\<open>SubmitDataPlaneRequest\<close>.
  Fields that none of the functions below reads (the RDMA resources, the control message
  buffers) are left out.
\<close>

record BuffConnConfig =
  BuffId :: int
  CtrlId :: int
  State :: ConnState
  RemoteCmId :: nat
  NextRequestContext :: nat
  PendingDataPlaneRequests :: "DataPlaneRequestContext list"
  RequestRing_Head :: int
  RequestRing_DataBaseAddr :: "64 word"
  ResponseRing_TailA :: int
  ResponseRing_TailB :: int
  ResponseRing_TailC :: int
  ResponseRing_DataBaseAddr :: "64 word"
  RequestDMAReadDataBuff :: "64 word"
  ResponseDMAWriteDataBuff :: "64 word"
  RequestDMAReadMetaBuff_Progress :: int
  RequestDMAReadMetaBuff_Tail :: int
  ResponseDMAReadMetaBuff_Progress :: int
  ResponseDMAReadMetaBuff_Head :: int
  RequestDMAReadDataSize :: int
  RequestDMAReadDataSplitState :: int
  ResponseDMAWriteDataSplitState :: int
  RequestDMAReadDataBytes :: Bytes
  ResponseDMAWriteDataBytes :: Bytes
  Posted :: "WorkRequest list"
  Submitted :: "Submission list"

text \<open>
  The reads of the code through its casts. \<open>RequestSizeAt c p\<close> is
  \<^verbatim>\<open>*(FileIOSizeT*)(buffReq + p)\<close>; \<open>RequestHeaderAt cfg c p\<close> gives the fields of
  \<^verbatim>\<open>(BuffMsgF2BReqHeader*)(buffReq + p + sizeof(FileIOSizeT))\<close>, the header of the record
  at offset \<open>p\<close>, read where the pointer points with no wrap at the end of the buffer.
  \<open>ResponseSizeAt\<close> and \<open>ResponseHeaderAt\<close> are the same for the response staging buffer.
\<close>

definition RequestSizeAt :: "BuffConnConfig \<Rightarrow> int \<Rightarrow> int" where
  "RequestSizeAt c p = loadLE (RequestDMAReadDataBytes c) p 4"

definition RequestHeaderAt :: "EngineConfig \<Rightarrow> BuffConnConfig \<Rightarrow> int \<Rightarrow> BuffMsgF2BReqHeader" where
  "RequestHeaderAt cfg c p =
     (let curReq = p + SIZEOF_FileIOSizeT
      in \<lparr>ReqRequestId = loadLE (RequestDMAReadDataBytes c)
                            (curReq + OFFSETOF_ReqHeader_RequestId cfg) (SIZEOF_RequestIdT cfg),
          ReqBytes = loadLE (RequestDMAReadDataBytes c) (curReq + OFFSETOF_ReqHeader_Bytes cfg) 4\<rparr>)"

definition ResponseSizeAt :: "BuffConnConfig \<Rightarrow> int \<Rightarrow> int" where
  "ResponseSizeAt c p = loadLE (ResponseDMAWriteDataBytes c) p 4"

definition ResponseHeaderAt :: "EngineConfig \<Rightarrow> BuffConnConfig \<Rightarrow> int \<Rightarrow> BuffMsgB2FAckHeader" where
  "ResponseHeaderAt cfg c p =
     (let curResp = p + SIZEOF_FileIOSizeT
      in \<lparr>RequestId = loadLE (ResponseDMAWriteDataBytes c)
                         (curResp + OFFSETOF_AckHeader_RequestId cfg) (SIZEOF_RequestIdT cfg),
          Result = loadLE (ResponseDMAWriteDataBytes c)
                      (curResp + OFFSETOF_AckHeader_Result cfg) (SIZEOF_ErrorCodeT cfg),
          BytesServiced = loadLE (ResponseDMAWriteDataBytes c)
                             (curResp + OFFSETOF_AckHeader_BytesServiced cfg) 4\<rparr>)"

record CtrlConnConfig =
  CtrlConnId :: int
  CtrlState :: ConnState
  CtrlRemoteCmId :: nat

record BackEndConfig =
  MaxClients :: nat
  MaxBuffs :: nat
  CtrlConns :: "CtrlConnConfig list"
  BuffConns :: "BuffConnConfig list"

subsection \<open>AllocConns, FindConnId and the connection-manager events\<close>

text \<open>What \<^verbatim>\<open>memset(..., 0, ...)\<close> leaves in a slot. The state of a zeroed slot is the one
  the connect handler looks for, \<^verbatim>\<open>CONN_STATE_AVAILABLE\<close>.\<close>

definition ZeroCtrlConn :: CtrlConnConfig where
  "ZeroCtrlConn = \<lparr>CtrlConnId = 0, CtrlState = CONN_STATE_AVAILABLE, CtrlRemoteCmId = 0\<rparr>"

definition ZeroBuffConn :: BuffConnConfig where
  "ZeroBuffConn =
     \<lparr>BuffId = 0, CtrlId = 0, State = CONN_STATE_AVAILABLE, RemoteCmId = 0,
      NextRequestContext = 0, PendingDataPlaneRequests = [],
      RequestRing_Head = 0, RequestRing_DataBaseAddr = 0,
      ResponseRing_TailA = 0, ResponseRing_TailB = 0, ResponseRing_TailC = 0,
      ResponseRing_DataBaseAddr = 0,
      RequestDMAReadDataBuff = 0, ResponseDMAWriteDataBuff = 0,
      RequestDMAReadMetaBuff_Progress = 0, RequestDMAReadMetaBuff_Tail = 0,
      ResponseDMAReadMetaBuff_Progress = 0, ResponseDMAReadMetaBuff_Head = 0,
      RequestDMAReadDataSize = 0, RequestDMAReadDataSplitState = 0,
      ResponseDMAWriteDataSplitState = 0,
      RequestDMAReadDataBytes = (\<lambda>a. 0),
      ResponseDMAWriteDataBytes = (\<lambda>a. 0),
      Posted = [], Submitted = []\<rparr>"

text \<open>An access to an array outside its allocation is a fault of the model.\<close>

datatype Fault = OutOfBounds nat

text \<open>The second loop of \<^verbatim>\<open>AllocConns\<close>, over \<open>c < MaxBuffs\<close>: it writes the identity of
  \<^verbatim>\<open>BuffConns[c]\<close>.\<close>

fun AssignBuffIds :: "BuffConnConfig list \<Rightarrow> nat list \<Rightarrow> Fault + BuffConnConfig list" where
  "AssignBuffIds conns [] = Inr conns"
| "AssignBuffIds conns (c # cs) =
     (if c < length conns
      then AssignBuffIds (conns[c := (conns ! c)\<lparr>BuffId := int c, NextRequestContext := 0\<rparr>]) cs
      else Inl (OutOfBounds c))"

text \<open>\<^verbatim>\<open>AllocConns\<close>: both arrays are allocated with \<open>MaxClients\<close> entries and zeroed.\<close>

definition AllocConns :: "nat \<Rightarrow> nat \<Rightarrow> Fault + BackEndConfig" where
  "AllocConns maxClients maxBuffs =
     (let ctrl = map (\<lambda>c. ZeroCtrlConn\<lparr>CtrlConnId := int c\<rparr>) [0 ..< maxClients]
      in case AssignBuffIds (replicate maxClients ZeroBuffConn) [0 ..< maxBuffs] of
           Inl f \<Rightarrow> Inl f
         | Inr buffs \<Rightarrow>
             Inr \<lparr>MaxClients = maxClients, MaxBuffs = maxBuffs,
                  CtrlConns = ctrl, BuffConns = buffs\<rparr>)"

text \<open>A loop \<^verbatim>\<open>for (i = 0; i < n; i++) if (conns[i].field == x) return i;\<close> over the
  indices \<open>is\<close>.\<close>

fun ScanConns :: "('a \<Rightarrow> bool) \<Rightarrow> 'a list \<Rightarrow> nat list \<Rightarrow> Fault + nat option" where
  "ScanConns hit conns [] = Inr None"
| "ScanConns hit conns (i # is) =
     (if i < length conns
      then (if hit (conns ! i) then Inr (Some i) else ScanConns hit conns is)
      else Inl (OutOfBounds i))"

text \<open>\<^verbatim>\<open>FindConnId\<close>: \<open>Some (True, i)\<close> for control connection \<open>i\<close>, \<open>Some (False, i)\<close> for
  buffer connection \<open>i\<close>, \<open>None\<close> for -1.\<close>

definition FindConnId :: "BackEndConfig \<Rightarrow> nat \<Rightarrow> Fault + (bool \<times> nat) option" where
  "FindConnId config cmId =
     (case ScanConns (\<lambda>c. CtrlRemoteCmId c = cmId) (CtrlConns config) [0 ..< MaxClients config] of
        Inl f \<Rightarrow> Inl f
      | Inr (Some i) \<Rightarrow> Inr (Some (True, i))
      | Inr None \<Rightarrow>
          (case ScanConns (\<lambda>c. RemoteCmId c = cmId) (BuffConns config) [0 ..< MaxBuffs config] of
             Inl f \<Rightarrow> Inl f
           | Inr (Some i) \<Rightarrow> Inr (Some (False, i))
           | Inr None \<Rightarrow> Inr None))"

text \<open>The slot selection of the \<^verbatim>\<open>CONNECT_REQUEST\<close> handler: the first available slot
  among the indices below \<open>MaxClients\<close>, for a control and for a buffer connection.\<close>

definition SelectCtrlConn :: "BackEndConfig \<Rightarrow> Fault + nat option" where
  "SelectCtrlConn config =
     ScanConns (\<lambda>c. CtrlState c = CONN_STATE_AVAILABLE) (CtrlConns config) [0 ..< MaxClients config]"

definition SelectBuffConn :: "BackEndConfig \<Rightarrow> Fault + nat option" where
  "SelectBuffConn config =
     ScanConns (\<lambda>c. State c = CONN_STATE_AVAILABLE) (BuffConns config) [0 ..< MaxClients config]"

text \<open>\<^verbatim>\<open>RDMA_CM_EVENT_CONNECT_REQUEST\<close>: the slot takes the event's id; when the queue
  pair, the buffers, the posted receive and \<^verbatim>\<open>rdma_accept\<close> all succeed (\<open>accepted\<close>) it
  becomes occupied.\<close>

definition OnConnectRequestCtrl :: "BackEndConfig \<Rightarrow> nat \<Rightarrow> bool \<Rightarrow> Fault + BackEndConfig" where
  "OnConnectRequestCtrl config cmId accepted =
     (case SelectCtrlConn config of
        Inl f \<Rightarrow> Inl f
      | Inr None \<Rightarrow> Inr config
      | Inr (Some i) \<Rightarrow>
          Inr (config\<lparr>CtrlConns := (CtrlConns config)
                 [i := (CtrlConns config ! i)\<lparr>CtrlRemoteCmId := cmId,
                        CtrlState := (if accepted then CONN_STATE_OCCUPIED
                                      else CtrlState (CtrlConns config ! i))\<rparr>]\<rparr>))"

definition OnConnectRequestBuff :: "BackEndConfig \<Rightarrow> nat \<Rightarrow> bool \<Rightarrow> Fault + BackEndConfig" where
  "OnConnectRequestBuff config cmId accepted =
     (case SelectBuffConn config of
        Inl f \<Rightarrow> Inl f
      | Inr None \<Rightarrow> Inr config
      | Inr (Some i) \<Rightarrow>
          Inr (config\<lparr>BuffConns := (BuffConns config)
                 [i := (BuffConns config ! i)\<lparr>RemoteCmId := cmId,
                        State := (if accepted then CONN_STATE_OCCUPIED
                                  else State (BuffConns config ! i))\<rparr>]\<rparr>))"

text \<open>
  \<^verbatim>\<open>RDMA_CM_EVENT_ESTABLISHED\<close>. The two assignments of \<^verbatim>\<open>CONN_STATE_CONNECTED\<close> stand
  between \<^verbatim>\<open>#ifdef DDS_STORAGE_FILE_BACKEND_VERBOSE\<close> and \<^verbatim>\<open>#endif\<close>, and the \<^verbatim>\<open>#endif\<close> of
  the buffer branch comes after the brace that closes that branch. Without the flag the
  braces of the handler do not match and the file is not a C program; the handler that is
  compiled is the one with the flag defined, and it is the one modelled.
\<close>

definition OnEstablished :: "BackEndConfig \<Rightarrow> nat \<Rightarrow> Fault + BackEndConfig" where
  "OnEstablished config cmId =
     (case FindConnId config cmId of
        Inl f \<Rightarrow> Inl f
      | Inr None \<Rightarrow> Inr config
      | Inr (Some (isCtrl, connId)) \<Rightarrow>
          if isCtrl
          then Inr (config\<lparr>CtrlConns := (CtrlConns config)
                 [connId := (CtrlConns config ! connId)\<lparr>CtrlState := CONN_STATE_CONNECTED\<rparr>]\<rparr>)
          else Inr (config\<lparr>BuffConns := (BuffConns config)
                 [connId := (BuffConns config ! connId)\<lparr>State := CONN_STATE_CONNECTED\<rparr>]\<rparr>))"

text \<open>The connections whose completion queue a pass polls: \<^verbatim>\<open>ProcessCtrlCqEvents\<close> and
  \<^verbatim>\<open>CheckAndProcessControlPlaneCompletions\<close> skip every control connection, and
  \<^verbatim>\<open>ProcessBuffCqEvents\<close> and \<^verbatim>\<open>CheckAndProcessIOCompletions\<close> every buffer connection,
  whose state is not \<^verbatim>\<open>CONN_STATE_CONNECTED\<close>.\<close>

definition CtrlConnsPolled :: "BackEndConfig \<Rightarrow> nat list" where
  "CtrlConnsPolled config =
     filter (\<lambda>i. CtrlState (CtrlConns config ! i) = CONN_STATE_CONNECTED) [0 ..< MaxClients config]"

definition BuffConnsPolled :: "BackEndConfig \<Rightarrow> nat list" where
  "BuffConnsPolled config =
     filter (\<lambda>i. State (BuffConns config ! i) = CONN_STATE_CONNECTED) [0 ..< MaxBuffs config]"



subsection \<open>The completion handlers of a buffer connection (ProcessBuffCqEvents)\<close>

text \<open>\<^verbatim>\<open>ibv_post_send\<close> on the connection's queue pair. A failed call only sets the return
  code of the pass; the handlers go on either way.\<close>

definition postSend :: "WorkRequest \<Rightarrow> BuffConnConfig \<Rightarrow> BuffConnConfig" where
  "postSend wr c = c\<lparr>Posted := Posted c @ [wr]\<rparr>"

text \<open>\<^verbatim>\<open>DistanceBetweenPointers(int Tail, int Head, size_t Capacity)\<close> returns an \<^verbatim>\<open>int\<close>;
  its second branch computes in \<^verbatim>\<open>size_t\<close>.\<close>

definition DistanceBetweenPointers :: "int \<Rightarrow> int \<Rightarrow> int \<Rightarrow> int" where
  "DistanceBetweenPointers Tail Head Capacity =
     (if Tail \<ge> Head then Tail - Head else s32 (Capacity - Head + Tail))"

text \<open>\<^verbatim>\<open>if (x >= n) x %= n;\<close>\<close>

definition wrapAt :: "int \<Rightarrow> int \<Rightarrow> int" where
  "wrapAt n x = (if x \<ge> n then x mod n else x)"


text \<open>
  The case \<^verbatim>\<open>BUFF_READ_RESPONSE_META_WR_ID\<close>. \<^verbatim>\<open>totalResponseBytes\<close> is a
  \<^verbatim>\<open>const FileIOSizeT\<close>: the comparison with \<^verbatim>\<open>distance\<close>, the test for the split and the
  new \<open>TailC\<close> are computed unsigned. The lengths of the scatter-gather entries are
  \<^verbatim>\<open>uint32_t\<close>.
\<close>

definition OnReadResponseMeta :: "EngineConfig \<Rightarrow> BuffConnConfig \<Rightarrow> BuffConnConfig" where
  "OnReadResponseMeta cfg c =
     (let progress = ResponseDMAReadMetaBuff_Progress c;
          head = ResponseDMAReadMetaBuff_Head c;
          tailStart = ResponseRing_TailC c;
          tailEnd = ResponseRing_TailB c
      in if tailStart = tailEnd then c
         else
           (let totalResponseBytes =
                  u32 (DistanceBetweenPointers tailEnd tailStart (BACKEND_RESPONSE_BUFFER_SIZE cfg))
            in if head \<noteq> progress then postSend ResponseDMAReadMetaWr c
               else
                 (let distance = (if tailStart \<ge> head
                                  then head + DDS_RESPONSE_RING_BYTES cfg - tailStart
                                  else head - tailStart)
                  in if u32 distance < totalResponseBytes then postSend ResponseDMAReadMetaWr c
                     else
                       (let noSplit = (u32 (tailStart + totalResponseBytes)
                                         \<le> u32 (DDS_RESPONSE_RING_BYTES cfg));
                            availBytes = (if noSplit then s32 totalResponseBytes
                                          else DDS_RESPONSE_RING_BYTES cfg - tailStart);
                            sourceBuffer1 = ResponseDMAWriteDataBuff c + word_of_int tailStart;
                            sourceBuffer2 = (if noSplit then 0 else ResponseDMAWriteDataBuff c);
                            destBuffer1 = ResponseRing_DataBaseAddr c + word_of_int tailStart;
                            destBuffer2 = (if noSplit then 0 else ResponseRing_DataBaseAddr c);
                            dataWr = ResponseDMAWriteDataWr destBuffer1 sourceBuffer1 (u32 availBytes);
                            c2 = (if sourceBuffer2 \<noteq> 0
                                  then postSend dataWr
                                         (postSend (ResponseDMAWriteDataSplitWr destBuffer2 sourceBuffer2
                                                      (u32 (totalResponseBytes - availBytes)))
                                            (c\<lparr>ResponseDMAWriteDataSplitState :=
                                                  BUFF_READ_DATA_SPLIT_STATE_SPLIT cfg\<rparr>))
                                  else postSend dataWr
                                         (c\<lparr>ResponseDMAWriteDataSplitState :=
                                               BUFF_READ_DATA_SPLIT_STATE_NOT_SPLIT cfg\<rparr>));
                            tailC = s32 (u32 (tailStart + totalResponseBytes)
                                           mod u32 (DDS_RESPONSE_RING_BYTES cfg))
                        in postSend (ResponseDMAWriteMetaWr tailC)
                             (c2\<lparr>ResponseRing_TailC := tailC\<rparr>)))))"

subsection \<open>ExecuteRequests\<close>

text \<open>The local variables of \<^verbatim>\<open>ExecuteRequests\<close> that change in its parsing loop, with
  the connection. \<open>bytesParsed\<close> and \<open>totalRespSize\<close> are \<^verbatim>\<open>FileIOSizeT\<close>, \<open>progressReq\<close> and
  \<open>progressResp\<close> are \<^verbatim>\<open>int\<close>, \<open>batchSize\<close> is a \<^verbatim>\<open>RequestIdT\<close>.\<close>

record ExecState =
  bytesParsed :: int
  progressReq :: int
  progressResp :: int
  totalRespSize :: int
  batchSize :: int
  conn :: BuffConnConfig

text \<open>\<^verbatim>\<open>sizeof(FileIOSizeT) + sizeof(BuffMsgB2FAckHeader)\<close>: the size of a response without
  payload, and the alignment of the responses.\<close>

definition RespAlignment :: "EngineConfig \<Rightarrow> int" where
  "RespAlignment cfg = SIZEOF_FileIOSizeT + SIZEOF_BuffMsgB2FAckHeader cfg"

text \<open>The test \<^verbatim>\<open>curReqSize > sizeof(BuffMsgF2BReqHeader)\<close> on the size prefix of a record,
  \<^verbatim>\<open>curReqSize\<close> being the \<^verbatim>\<open>FileIOSizeT\<close> that holds the prefix minus
  \<^verbatim>\<open>sizeof(FileIOSizeT)\<close>.\<close>

definition IsWriteRequest :: "EngineConfig \<Rightarrow> int \<Rightarrow> bool" where
  "IsWriteRequest cfg reqSize \<longleftrightarrow>
     u32 (reqSize - SIZEOF_FileIOSizeT) > SIZEOF_BuffMsgF2BReqHeader cfg"

text \<open>The size reserved for the response of a read of \<open>bytes\<close> bytes: header and payload,
  rounded up to the alignment, in the \<^verbatim>\<open>FileIOSizeT\<close> variable \<^verbatim>\<open>respSize\<close>.\<close>

definition ReadRespSize :: "EngineConfig \<Rightarrow> int \<Rightarrow> int" where
  "ReadRespSize cfg bytes =
     (let alignment = RespAlignment cfg;
          respSize = u32 (alignment + bytes)
      in if respSize mod u32 alignment \<noteq> 0
         then u32 (respSize + (alignment - respSize mod u32 alignment))
         else respSize)"

text \<open>The response stub: the size word, and \<open>RequestId\<close> and \<open>Result\<close> of the header, which
  is written as one object right behind the size word.\<close>

definition writeStub :: "EngineConfig \<Rightarrow> int \<Rightarrow> int \<Rightarrow> int \<Rightarrow> BuffConnConfig \<Rightarrow> BuffConnConfig" where
  "writeStub cfg p respSize reqId c =
     (let resp = p + SIZEOF_FileIOSizeT;
          m1 = storeLE (ResponseDMAWriteDataBytes c) p 4 respSize;
          m2 = storeLE m1 (resp + OFFSETOF_AckHeader_RequestId cfg) (SIZEOF_RequestIdT cfg) reqId;
          m3 = storeLE m2 (resp + OFFSETOF_AckHeader_Result cfg) (SIZEOF_ErrorCodeT cfg)
                 (DDS_ERROR_CODE_IO_PENDING cfg)
      in c\<lparr>ResponseDMAWriteDataBytes := m3\<rparr>)"

text \<open>The next context slot is taken and \<open>NextRequestContext\<close> advances modulo the pool
  size; then the context is filled and, without file-service batching, submitted.\<close>

definition takeContext :: "EngineConfig \<Rightarrow> DataPlaneRequestContext \<Rightarrow> bool \<Rightarrow> BuffConnConfig
    \<Rightarrow> BuffConnConfig" where
  "takeContext cfg ctxt isRead c =
     (let currIndex = NextRequestContext c;
          old = PendingDataPlaneRequests c ! currIndex;
          filled = (if OPT_FILE_SERVICE_BATCHING cfg then ctxt\<lparr>IsRead := isRead\<rparr>
                    else ctxt\<lparr>IsRead := IsRead old\<rparr>);
          c1 = c\<lparr>NextRequestContext :=
                   (if currIndex + 1 = DDS_MAX_OUTSTANDING_IO cfg then 0 else currIndex + 1),
                 PendingDataPlaneRequests := (PendingDataPlaneRequests c)[currIndex := filled]\<rparr>
      in if OPT_FILE_SERVICE_BATCHING cfg then c1
         else c1\<lparr>Submitted := Submitted c1 @ [SubmitOne currIndex isRead]\<rparr>)"

text \<open>One iteration of the parsing loop. The sums of an \<^verbatim>\<open>int\<close> and a \<^verbatim>\<open>FileIOSizeT\<close> are
  unsigned and go back into the \<^verbatim>\<open>int\<close>; the size and the header of the request are
  read, and the stub is written, at the addresses the pointers have.\<close>

definition ExecuteOneRequest :: "EngineConfig \<Rightarrow> ExecState \<Rightarrow> ExecState" where
  "ExecuteOneRequest cfg st =
     (let c = conn st;
          reqSize = RequestSizeAt c (progressReq st);
          curReqObj = RequestHeaderAt cfg c (progressReq st);
          progressReq' = wrapAt (BACKEND_REQUEST_BUFFER_SIZE cfg) (s32 (progressReq st + reqSize));
          progressReqForParsing =
            wrapAt (BACKEND_REQUEST_BUFFER_SIZE cfg)
              (s32 (progressReq st + (SIZEOF_FileIOSizeT + SIZEOF_BuffMsgF2BReqHeader cfg)));
          alignment = RespAlignment cfg;
          p = progressResp st
      in if IsWriteRequest cfg reqSize
         then
           (let respSize = u32 alignment;
                dataBuff =
                  (if u32 (progressReqForParsing + ReqBytes curReqObj)
                        \<ge> u32 (BACKEND_REQUEST_BUFFER_SIZE cfg)
                   then \<lparr>TotalSize = ReqBytes curReqObj,
                         FirstAddr = RequestBuffAt progressReqForParsing,
                         FirstSize = u32 (BACKEND_REQUEST_BUFFER_SIZE cfg - progressReqForParsing),
                         SecondAddr = Some (RequestBuffAt 0)\<rparr>
                   else \<lparr>TotalSize = ReqBytes curReqObj,
                         FirstAddr = RequestBuffAt progressReqForParsing,
                         FirstSize = ReqBytes curReqObj,
                         SecondAddr = None\<rparr>);
                ctxt = \<lparr>Request = progressReq st + SIZEOF_FileIOSizeT,
                        Response = p + SIZEOF_FileIOSizeT, DataBuffer = dataBuff,
                        IsRead = False\<rparr>
            in st\<lparr>bytesParsed := u32 (bytesParsed st + reqSize),
                  progressReq := progressReq',
                  progressResp := wrapAt (BACKEND_RESPONSE_BUFFER_SIZE cfg) (s32 (p + respSize)),
                  totalRespSize := u32 (totalRespSize st + respSize),
                  batchSize := (batchSize st + 1) mod 256 ^ SIZEOF_RequestIdT cfg,
                  conn := takeContext cfg ctxt False
                            (writeStub cfg p respSize (ReqRequestId curReqObj) c)\<rparr>)
         else
           (let respSize = ReadRespSize cfg (ReqBytes curReqObj);
                dataBuff =
                  (if u32 (p + respSize) \<le> u32 (BACKEND_RESPONSE_BUFFER_SIZE cfg)
                   then \<lparr>TotalSize = ReqBytes curReqObj,
                         FirstAddr = ResponseBuffAt (p + alignment),
                         FirstSize = ReqBytes curReqObj,
                         SecondAddr = None\<rparr>
                   else if p + alignment < BACKEND_RESPONSE_BUFFER_SIZE cfg
                   then \<lparr>TotalSize = ReqBytes curReqObj,
                         FirstAddr = ResponseBuffAt (p + alignment),
                         FirstSize = u32 (BACKEND_RESPONSE_BUFFER_SIZE cfg - p - alignment),
                         SecondAddr = Some (ResponseBuffAt 0)\<rparr>
                   else \<lparr>TotalSize = ReqBytes curReqObj,
                         FirstAddr = ResponseBuffAt 0,
                         FirstSize = ReqBytes curReqObj,
                         SecondAddr = None\<rparr>);
                ctxt = \<lparr>Request = progressReq st + SIZEOF_FileIOSizeT,
                        Response = p + SIZEOF_FileIOSizeT, DataBuffer = dataBuff,
                        IsRead = True\<rparr>
            in st\<lparr>bytesParsed := u32 (bytesParsed st + reqSize),
                  progressReq := progressReq',
                  progressResp := wrapAt (BACKEND_RESPONSE_BUFFER_SIZE cfg) (s32 (p + respSize)),
                  totalRespSize := u32 (totalRespSize st + respSize),
                  batchSize := (batchSize st + 1) mod 256 ^ SIZEOF_RequestIdT cfg,
                  conn := takeContext cfg ctxt True
                            (writeStub cfg p respSize (ReqRequestId curReqObj) c)\<rparr>))"

text \<open>\<^verbatim>\<open>while (bytesParsed != bytesTotal)\<close>: the loop does not end when the sizes it reads
  never add up to \<open>bytesTotal\<close>; then the result is \<open>None\<close>.\<close>

partial_function (option) ExecuteLoop :: "EngineConfig \<Rightarrow> int \<Rightarrow> ExecState \<Rightarrow> ExecState option" where
  "ExecuteLoop cfg bytesTotal st =
     (if bytesParsed st = bytesTotal then Some st
      else ExecuteLoop cfg bytesTotal (ExecuteOneRequest cfg st))"

declare ExecuteLoop.simps [code]

text \<open>How a pass ends: it returns, or it logs "Response buffer is corrupted!" and calls
  \<^verbatim>\<open>exit(-1)\<close>; the connection is given as it is at that point.\<close>

datatype ExecResult = Returned BuffConnConfig | Exited BuffConnConfig

text \<open>\<^verbatim>\<open>headReq\<close>: the comparison and the differences of the \<^verbatim>\<open>int\<close> \<^verbatim>\<open>tailReq\<close> and the
  \<^verbatim>\<open>FileIOSizeT\<close> \<^verbatim>\<open>bytesTotal\<close> are unsigned.\<close>

definition ExecHeadReq :: "EngineConfig \<Rightarrow> BuffConnConfig \<Rightarrow> int" where
  "ExecHeadReq cfg c =
     (let bytesTotal = u32 (RequestDMAReadDataSize c); tailReq = RequestRing_Head c
      in if u32 tailReq \<ge> bytesTotal then s32 (tailReq - bytesTotal)
         else s32 (BACKEND_REQUEST_BUFFER_SIZE cfg + tailReq - bytesTotal))"

definition respRingCapacity :: "EngineConfig \<Rightarrow> BuffConnConfig \<Rightarrow> int" where
  "respRingCapacity cfg c =
     (let tailResp = ResponseRing_TailA c; headResp = ResponseRing_TailB c
      in if tailResp \<ge> headResp then BACKEND_RESPONSE_BUFFER_SIZE cfg - tailResp + headResp
         else headResp - tailResp)"

text \<open>The state in which the parsing loop is entered: with response batching the batch
  header is reserved first.\<close>

definition ExecInit :: "EngineConfig \<Rightarrow> BuffConnConfig \<Rightarrow> ExecState" where
  "ExecInit cfg c =
     \<lparr>bytesParsed = 0,
      progressReq = ExecHeadReq cfg c,
      progressResp = (if RING_BUFFER_RESPONSE_BATCH_ENABLED cfg
                      then wrapAt (BACKEND_RESPONSE_BUFFER_SIZE cfg)
                             (s32 (ResponseRing_TailA c + RespAlignment cfg))
                      else ResponseRing_TailA c),
      totalRespSize = (if RING_BUFFER_RESPONSE_BATCH_ENABLED cfg then u32 (RespAlignment cfg) else 0),
      batchSize = 0,
      conn = c\<rparr>"

text \<open>What follows the loop: the batch submission, the capacity check (the
  \<^verbatim>\<open>FileIOSizeT\<close> \<^verbatim>\<open>totalRespSize\<close> against the \<^verbatim>\<open>int\<close> capacity, unsigned), the new \<open>TailA\<close>
  and the batch size written into the batch header.\<close>

definition ExecFinish :: "EngineConfig \<Rightarrow> BuffConnConfig \<Rightarrow> ExecState \<Rightarrow> ExecResult" where
  "ExecFinish cfg c0 st =
     (let c1 = (if OPT_FILE_SERVICE_BATCHING cfg
                then (conn st)\<lparr>Submitted := Submitted (conn st)
                        @ [SubmitBatch (NextRequestContext c0) (batchSize st) 0]\<rparr>
                else conn st)
      in if totalRespSize st \<ge> u32 (respRingCapacity cfg c0) then Exited c1
         else
           (let c2 = c1\<lparr>ResponseRing_TailA := progressResp st\<rparr>
            in Returned
                 (if RING_BUFFER_RESPONSE_BATCH_ENABLED cfg
                  then c2\<lparr>ResponseDMAWriteDataBytes :=
                            storeLE (ResponseDMAWriteDataBytes c2) (ResponseRing_TailA c0) 4
                              (totalRespSize st)\<rparr>
                  else c2)))"

definition ExecuteRequests :: "EngineConfig \<Rightarrow> BuffConnConfig \<Rightarrow> ExecResult option" where
  "ExecuteRequests cfg c =
     (case ExecuteLoop cfg (u32 (RequestDMAReadDataSize c)) (ExecInit cfg c) of
        None \<Rightarrow> None
      | Some st \<Rightarrow> Some (ExecFinish cfg c st))"

subsection \<open>Reading the rings\<close>

text \<open>
  The words in which the properties of a pass are stated. \<open>ResponseFrames cfg c p n\<close>
  reads \<open>n\<close> responses from the response staging buffer, the first at offset \<open>p\<close> and each
  next one at the offset advanced by the size of the one before, as the completion sweep
  does. \<open>StubView\<close> keeps the size, the request id and the result of a response.
  \<open>HostRecordAt cfg c p\<close> reads the record at offset \<open>p\<close> of the request ring as the host
  has written it and the data reads have mirrored it: byte by byte around the end of the
  ring. \<open>TailsInOrder\<close> is the order of the three tails on the ring: from \<open>TailC\<close> forward,
  \<open>TailB\<close> comes first and \<open>TailA\<close> after it, within one turn of the ring.
\<close>

fun ResponseFrames :: "EngineConfig \<Rightarrow> BuffConnConfig \<Rightarrow> int \<Rightarrow> nat \<Rightarrow> (int \<times> BuffMsgB2FAckHeader) list" where
  "ResponseFrames cfg c p 0 = []"
| "ResponseFrames cfg c p (Suc n) =
     (ResponseSizeAt c p, ResponseHeaderAt cfg c p)
       # ResponseFrames cfg c (wrapAt (BACKEND_RESPONSE_BUFFER_SIZE cfg) (s32 (p + ResponseSizeAt c p))) n"

definition StubView :: "int \<times> BuffMsgB2FAckHeader \<Rightarrow> int \<times> int \<times> int" where
  "StubView f = (fst f, RequestId (snd f), Result (snd f))"

fun loadRingLE :: "int \<Rightarrow> Bytes \<Rightarrow> int \<Rightarrow> nat \<Rightarrow> int" where
  "loadRingLE N m a 0 = 0"
| "loadRingLE N m a (Suc n) = uint (m (a mod N)) + 256 * loadRingLE N m (a + 1) n"

fun storeRingLE :: "int \<Rightarrow> Bytes \<Rightarrow> int \<Rightarrow> nat \<Rightarrow> int \<Rightarrow> Bytes" where
  "storeRingLE N m a 0 v = m"
| "storeRingLE N m a (Suc n) v =
     storeRingLE N (m(a mod N := word_of_int v)) (a + 1) n (v div 256)"

type_synonym RequestRecord = "int \<times> BuffMsgF2BReqHeader"

definition HostRecordAt :: "EngineConfig \<Rightarrow> BuffConnConfig \<Rightarrow> int \<Rightarrow> RequestRecord" where
  "HostRecordAt cfg c p =
     (let N = DDS_REQUEST_RING_BYTES cfg; m = RequestDMAReadDataBytes c;
          hdr = p + SIZEOF_FileIOSizeT
      in (loadRingLE N m p 4,
          \<lparr>ReqRequestId = loadRingLE N m (hdr + OFFSETOF_ReqHeader_RequestId cfg) (SIZEOF_RequestIdT cfg),
           ReqBytes = loadRingLE N m (hdr + OFFSETOF_ReqHeader_Bytes cfg) 4\<rparr>))"

definition TailsInOrder :: "EngineConfig \<Rightarrow> BuffConnConfig \<Rightarrow> bool" where
  "TailsInOrder cfg c \<longleftrightarrow>
     DistanceBetweenPointers (ResponseRing_TailB c) (ResponseRing_TailC c) (BACKEND_RESPONSE_BUFFER_SIZE cfg)
     + DistanceBetweenPointers (ResponseRing_TailA c) (ResponseRing_TailB c) (BACKEND_RESPONSE_BUFFER_SIZE cfg)
     < BACKEND_RESPONSE_BUFFER_SIZE cfg"

text \<open>The data writes to the host that a connection has posted, each with the offset of
  its destination in the host's response ring and its length, in the order of the calls.\<close>

fun HostWrites :: "64 word \<Rightarrow> WorkRequest list \<Rightarrow> (int \<times> int) list" where
  "HostWrites base [] = []"
| "HostWrites base (ResponseDMAWriteDataWr dest src len # ws) =
     (uint (dest - base), len) # HostWrites base ws"
| "HostWrites base (ResponseDMAWriteDataSplitWr dest src len # ws) =
     (uint (dest - base), len) # HostWrites base ws"
| "HostWrites base (w # ws) = HostWrites base ws"

subsection \<open>CheckAndProcessIOCompletions\<close>

text \<open>The scan of the responses with response batching: it stops at the end of the batch
  or at the first response whose result is still pending. A response of size 0 that is
  not pending, or sizes that step over the end of the batch, keep it running.\<close>

partial_function (option) BatchSweepLoop ::
    "EngineConfig \<Rightarrow> BuffConnConfig \<Rightarrow> int \<Rightarrow> int \<Rightarrow> int \<Rightarrow> int option" where
  "BatchSweepLoop cfg c head2 batchTotal head1 =
     (if u32 (DistanceBetweenPointers head1 head2 (BACKEND_RESPONSE_BUFFER_SIZE cfg)) = batchTotal
      then Some head1
      else if Result (ResponseHeaderAt cfg c head1) = DDS_ERROR_CODE_IO_PENDING cfg then Some head1
      else BatchSweepLoop cfg c head2 batchTotal
             (wrapAt (BACKEND_RESPONSE_BUFFER_SIZE cfg) (s32 (head1 + ResponseSizeAt c head1))))"

declare BatchSweepLoop.simps [code]

definition SweepBatched :: "EngineConfig \<Rightarrow> BuffConnConfig \<Rightarrow> BuffConnConfig option" where
  "SweepBatched cfg c =
     (let head2 = ResponseRing_TailC c;
          tail = ResponseRing_TailA c;
          batchTotal = ResponseSizeAt c head2
      in if tail = ResponseRing_TailB c then Some c
         else
           (let start = (if ResponseRing_TailB c = head2
                         then wrapAt (BACKEND_RESPONSE_BUFFER_SIZE cfg)
                                (s32 (ResponseRing_TailB c + RespAlignment cfg))
                         else ResponseRing_TailB c)
            in case BatchSweepLoop cfg c head2 batchTotal start of
                 None \<Rightarrow> None
               | Some head1 \<Rightarrow>
                   if head1 \<noteq> ResponseRing_TailB c
                   then (let c1 = c\<lparr>ResponseRing_TailB := head1\<rparr>
                         in if u32 (DistanceBetweenPointers head1 head2 (BACKEND_RESPONSE_BUFFER_SIZE cfg))
                               = batchTotal
                            then Some (postSend ResponseDMAReadMetaWr c1)
                            else Some c1)
                   else Some c))"

text \<open>The scan without response batching. A response that is still pending is given
  the result \<^verbatim>\<open>DDS_ERROR_CODE_SUCCESS\<close> and 4 serviced bytes (the source marks this
  "DO NOT USE: testing" and has the \<^verbatim>\<open>break\<close> commented out), and the scan goes on to
  \<open>TailA\<close>.\<close>

partial_function (option) PlainSweepLoop ::
    "EngineConfig \<Rightarrow> int \<Rightarrow> BuffConnConfig \<Rightarrow> int \<Rightarrow> (BuffConnConfig \<times> int) option" where
  "PlainSweepLoop cfg tail c head =
     (if head = tail then Some (c, head)
      else
        (let curRespSize = ResponseSizeAt c head;
             curResp = head + SIZEOF_FileIOSizeT;
             c1 = (if Result (ResponseHeaderAt cfg c head) = DDS_ERROR_CODE_IO_PENDING cfg
                   then c\<lparr>ResponseDMAWriteDataBytes :=
                            storeLE
                              (storeLE (ResponseDMAWriteDataBytes c)
                                 (curResp + OFFSETOF_AckHeader_Result cfg) (SIZEOF_ErrorCodeT cfg)
                                 (DDS_ERROR_CODE_SUCCESS cfg))
                              (curResp + OFFSETOF_AckHeader_BytesServiced cfg) 4 4\<rparr>
                   else c)
         in PlainSweepLoop cfg tail c1
              (wrapAt (BACKEND_RESPONSE_BUFFER_SIZE cfg) (s32 (head + curRespSize)))))"

declare PlainSweepLoop.simps [code]

definition SweepPlain :: "EngineConfig \<Rightarrow> BuffConnConfig \<Rightarrow> BuffConnConfig option" where
  "SweepPlain cfg c =
     (if ResponseRing_TailB c = ResponseRing_TailA c then Some c
      else case PlainSweepLoop cfg (ResponseRing_TailA c) c (ResponseRing_TailB c) of
             None \<Rightarrow> None
           | Some (c1, head) \<Rightarrow>
               if head \<noteq> ResponseRing_TailB c
               then Some (postSend ResponseDMAReadMetaWr (c1\<lparr>ResponseRing_TailB := head\<rparr>))
               else Some c1)"

text \<open>The body of the loop of \<^verbatim>\<open>CheckAndProcessIOCompletions\<close> for one connection: a
  connection that is not connected is skipped.\<close>

definition CheckAndProcessIOCompletions1 :: "EngineConfig \<Rightarrow> BuffConnConfig \<Rightarrow> BuffConnConfig option" where
  "CheckAndProcessIOCompletions1 cfg c =
     (if State c \<noteq> CONN_STATE_CONNECTED then Some c
      else if RING_BUFFER_RESPONSE_BATCH_ENABLED cfg then SweepBatched cfg c
      else SweepPlain cfg c)"

section \<open>Concrete inputs\<close>

subsection \<open>Cache-table inputs\<close>

text \<open>Two buckets of one slot each: the depth bound is \<open>min (4 * 1) 2 = 2\<close>. Keys 1 and 2
  hash to the buckets 0 and 1; key 3 hashes to bucket 0, its second hash to bucket 1.\<close>

definition fullHash1 :: "KeyT \<Rightarrow> HashValueT" where
  "fullHash1 k = (if k = 1 then 4 else if k = 2 then 5 else 8)"

definition fullHash2 :: "KeyT \<Rightarrow> HashValueT" where
  "fullHash2 k = (if k = 1 then 7 else if k = 2 then 6 else 9)"

definition fullCfg :: CacheConfig where
  "fullCfg = \<lparr>CACHE_TABLE_BUCKET_COUNT_POWER = 1, CACHE_TABLE_BUCKET_SIZE = 1,
     CACHE_TABLE_CAPACITY = 2,
     CACHE_TABLE_OCC_GRANULARITY = CACHE_TABLE_OCC_GRANULARITY_BUCKET,
     HASH_FUNCTION1 = fullHash1, HASH_FUNCTION2 = fullHash2\<rparr>"

definition fullTbl1 :: CacheTableT where
  "fullTbl1 =
    [\<lparr>HashValues = [4],
      Elements = [\<lparr>Item = \<lparr>Key = 1, Value = 100\<rparr>, Hash1 = 4, Hash2 = 7, EOcc = False\<rparr>],
      Occ = False\<rparr>,
     \<lparr>HashValues = [0], Elements = [ZeroElement], Occ = False\<rparr>]"

definition fullTbl :: CacheTableT where
  "fullTbl =
    [\<lparr>HashValues = [4],
      Elements = [\<lparr>Item = \<lparr>Key = 1, Value = 100\<rparr>, Hash1 = 4, Hash2 = 7, EOcc = False\<rparr>],
      Occ = False\<rparr>,
     \<lparr>HashValues = [5],
      Elements = [\<lparr>Item = \<lparr>Key = 2, Value = 200\<rparr>, Hash1 = 5, Hash2 = 6, EOcc = False\<rparr>],
      Occ = False\<rparr>]"

definition fullTblAfter :: CacheTableT where
  "fullTblAfter =
    [\<lparr>HashValues = [7],
      Elements = [\<lparr>Item = \<lparr>Key = 1, Value = 100\<rparr>, Hash1 = 4, Hash2 = 7, EOcc = False\<rparr>],
      Occ = False\<rparr>,
     \<lparr>HashValues = [6],
      Elements = [\<lparr>Item = \<lparr>Key = 2, Value = 200\<rparr>, Hash1 = 5, Hash2 = 6, EOcc = False\<rparr>],
      Occ = False\<rparr>]"

text \<open>Four buckets of one slot each: the depth bound is \<open>min (4 * 2) 4 = 4\<close>. Keys 1 and 2
  both hash to bucket 1, and their second hashes both lead to bucket 2.\<close>

definition dupHash1 :: "KeyT \<Rightarrow> HashValueT" where
  "dupHash1 k = (if k = 1 then 5 else 9)"

definition dupHash2 :: "KeyT \<Rightarrow> HashValueT" where
  "dupHash2 k = (if k = 1 then 6 else 10)"

definition dupCfg :: CacheConfig where
  "dupCfg = \<lparr>CACHE_TABLE_BUCKET_COUNT_POWER = 2, CACHE_TABLE_BUCKET_SIZE = 1,
     CACHE_TABLE_CAPACITY = 4,
     CACHE_TABLE_OCC_GRANULARITY = CACHE_TABLE_OCC_GRANULARITY_BUCKET,
     HASH_FUNCTION1 = dupHash1, HASH_FUNCTION2 = dupHash2\<rparr>"

definition emptyBucket1 :: CacheBucketT where
  "emptyBucket1 = \<lparr>HashValues = [0], Elements = [ZeroElement], Occ = False\<rparr>"

definition dupTbl1 :: CacheTableT where
  "dupTbl1 =
    [emptyBucket1,
     \<lparr>HashValues = [5],
      Elements = [\<lparr>Item = \<lparr>Key = 1, Value = 100\<rparr>, Hash1 = 5, Hash2 = 6, EOcc = False\<rparr>],
      Occ = False\<rparr>,
     emptyBucket1, emptyBucket1]"

definition dupTbl2 :: CacheTableT where
  "dupTbl2 =
    [emptyBucket1,
     \<lparr>HashValues = [9],
      Elements = [\<lparr>Item = \<lparr>Key = 2, Value = 200\<rparr>, Hash1 = 9, Hash2 = 10, EOcc = False\<rparr>],
      Occ = False\<rparr>,
     \<lparr>HashValues = [6],
      Elements = [\<lparr>Item = \<lparr>Key = 1, Value = 100\<rparr>, Hash1 = 6, Hash2 = 5, EOcc = False\<rparr>],
      Occ = False\<rparr>,
     emptyBucket1]"

definition dupTbl3 :: CacheTableT where
  "dupTbl3 =
    [emptyBucket1,
     \<lparr>HashValues = [5],
      Elements = [\<lparr>Item = \<lparr>Key = 1, Value = 100\<rparr>, Hash1 = 5, Hash2 = 6, EOcc = False\<rparr>],
      Occ = False\<rparr>,
     \<lparr>HashValues = [10],
      Elements = [\<lparr>Item = \<lparr>Key = 2, Value = 200\<rparr>, Hash1 = 10, Hash2 = 9, EOcc = False\<rparr>],
      Occ = False\<rparr>,
     emptyBucket1]"

definition dupTblDeleted :: CacheTableT where
  "dupTblDeleted =
    [emptyBucket1,
     \<lparr>HashValues = [9],
      Elements = [\<lparr>Item = \<lparr>Key = 2, Value = 200\<rparr>, Hash1 = 9, Hash2 = 10, EOcc = False\<rparr>],
      Occ = False\<rparr>,
     \<lparr>HashValues = [0], Elements = [ZeroElement], Occ = True\<rparr>,
     emptyBucket1]"

subsection \<open>Connection inputs\<close>

text \<open>The constants of the examples: rings of 4096 bytes; a request header of 28 bytes
  with the request id in its first two bytes and the byte count at offset 16; a response
  header of 8 bytes (request id, result, serviced bytes), so that the response alignment
  is 12.\<close>

definition exEngine :: EngineConfig where
  "exEngine =
     \<lparr>DDS_REQUEST_RING_BYTES = 4096, DDS_RESPONSE_RING_BYTES = 4096,
      BACKEND_REQUEST_BUFFER_SIZE = 4096, BACKEND_RESPONSE_BUFFER_SIZE = 4096,
      DDS_MAX_OUTSTANDING_IO = 8,
      SIZEOF_BuffMsgF2BReqHeader = 28, SIZEOF_BuffMsgB2FAckHeader = 8,
      SIZEOF_RequestIdT = 2, SIZEOF_ErrorCodeT = 2,
      OFFSETOF_ReqHeader_RequestId = 0, OFFSETOF_ReqHeader_Bytes = 16,
      OFFSETOF_AckHeader_RequestId = 0, OFFSETOF_AckHeader_Result = 2,
      OFFSETOF_AckHeader_BytesServiced = 4,
      BUFF_READ_DATA_SPLIT_STATE_SPLIT = 0, BUFF_READ_DATA_SPLIT_STATE_NOT_SPLIT = 1,
      DDS_ERROR_CODE_IO_PENDING = 1, DDS_ERROR_CODE_SUCCESS = 0,
      RING_BUFFER_RESPONSE_BATCH_ENABLED = True, OPT_FILE_SERVICE_BATCHING = True\<rparr>"

text \<open>One control and one buffer slot, as allocated, and after a control connection with
  the id 7 was accepted.\<close>

definition freshConfig :: BackEndConfig where
  "freshConfig =
     \<lparr>MaxClients = 1, MaxBuffs = 1, CtrlConns = [ZeroCtrlConn], BuffConns = [ZeroBuffConn]\<rparr>"

definition acceptedConfig :: BackEndConfig where
  "acceptedConfig =
     \<lparr>MaxClients = 1, MaxBuffs = 1,
      CtrlConns = [\<lparr>CtrlConnId = 0, CtrlState = CONN_STATE_OCCUPIED, CtrlRemoteCmId = 7\<rparr>],
      BuffConns = [ZeroBuffConn]\<rparr>"


definition twoSlots :: BackEndConfig where
  "twoSlots =
     \<lparr>MaxClients = 2, MaxBuffs = 2,
      CtrlConns = [ZeroCtrlConn, ZeroCtrlConn\<lparr>CtrlConnId := 1\<rparr>],
      BuffConns = [ZeroBuffConn\<lparr>State := CONN_STATE_OCCUPIED, RemoteCmId := 5\<rparr>,
                   ZeroBuffConn\<lparr>BuffId := 1\<rparr>]\<rparr>"


subsection \<open>Buffer-connection inputs\<close>

definition zeroContext :: DataPlaneRequestContext where
  "zeroContext =
     \<lparr>Request = 0, Response = 0,
      DataBuffer = \<lparr>TotalSize = 0, FirstAddr = RequestBuffAt 0, FirstSize = 0, SecondAddr = None\<rparr>,
      IsRead = False\<rparr>"

text \<open>A connected buffer connection after the handshake: empty rings, the host's rings
  at the addresses 0x10000 and 0x20000, the staging buffers at 0x7000 and 0x9000.\<close>

definition exConn :: BuffConnConfig where
  "exConn =
     ZeroBuffConn\<lparr>State := CONN_STATE_CONNECTED, RemoteCmId := 5,
       PendingDataPlaneRequests := replicate 8 zeroContext,
       RequestRing_DataBaseAddr := 0x10000, ResponseRing_DataBaseAddr := 0x20000,
       RequestDMAReadDataBuff := 0x7000, ResponseDMAWriteDataBuff := 0x9000\<rparr>"




subsection \<open>Inputs of the request execution and of the completion sweep\<close>

text \<open>A write of 16 bytes and a read of \<open>n\<close> bytes with the request id \<open>i\<close>: records of
  \<open>4 + 28 + 16\<close> and of \<open>4 + 28\<close> bytes.\<close>

definition writeReq :: "int \<Rightarrow> RequestRecord" where
  "writeReq i = (48, \<lparr>ReqRequestId = i, ReqBytes = 16\<rparr>)"

definition readReq :: "int \<Rightarrow> int \<Rightarrow> RequestRecord" where
  "readReq i n = (32, \<lparr>ReqRequestId = i, ReqBytes = n\<rparr>)"

text \<open>The bytes of a record at offset \<open>p\<close> of the host's request ring, and so of its
  mirror in the request staging buffer: the size prefix and the two header fields, each
  byte at its offset modulo the size of the ring.\<close>

definition PutRequest :: "EngineConfig \<Rightarrow> int \<Rightarrow> RequestRecord \<Rightarrow> Bytes \<Rightarrow> Bytes" where
  "PutRequest cfg p r m =
     (let N = DDS_REQUEST_RING_BYTES cfg; hdr = p + SIZEOF_FileIOSizeT;
          m1 = storeRingLE N m p 4 (fst r);
          m2 = storeRingLE N m1 (hdr + OFFSETOF_ReqHeader_RequestId cfg) (SIZEOF_RequestIdT cfg)
                 (ReqRequestId (snd r))
      in storeRingLE N m2 (hdr + OFFSETOF_ReqHeader_Bytes cfg) 4 (ReqBytes (snd r)))"

text \<open>What the completion of the data reads leaves behind when the host has written one
  record, or two, at offset \<open>p\<close> of its ring: the records in the request staging buffer,
  the head behind them, and their size.\<close>

definition ReceiveRequest :: "EngineConfig \<Rightarrow> int \<Rightarrow> RequestRecord \<Rightarrow> BuffConnConfig \<Rightarrow> BuffConnConfig" where
  "ReceiveRequest cfg p r c =
     c\<lparr>RequestRing_Head := (p + fst r) mod DDS_REQUEST_RING_BYTES cfg,
       RequestDMAReadDataSize := fst r,
       RequestDMAReadDataBytes := PutRequest cfg p r (RequestDMAReadDataBytes c)\<rparr>"

definition ReceiveRequests :: "EngineConfig \<Rightarrow> int \<Rightarrow> RequestRecord \<Rightarrow> RequestRecord \<Rightarrow> BuffConnConfig
    \<Rightarrow> BuffConnConfig" where
  "ReceiveRequests cfg p r1 r2 c =
     c\<lparr>RequestRing_Head := (p + fst r1 + fst r2) mod DDS_REQUEST_RING_BYTES cfg,
       RequestDMAReadDataSize := fst r1 + fst r2,
       RequestDMAReadDataBytes :=
         PutRequest cfg (p + fst r1) r2 (PutRequest cfg p r1 (RequestDMAReadDataBytes c))\<rparr>"

text \<open>What the file service does when it completes a request: it sets the result and
  the serviced bytes of the response header the context points at, here the header of
  the response at offset \<open>p\<close>.\<close>

definition CompleteResponse :: "EngineConfig \<Rightarrow> int \<Rightarrow> int \<Rightarrow> int \<Rightarrow> BuffConnConfig \<Rightarrow> BuffConnConfig" where
  "CompleteResponse cfg p result bytes c =
     (let resp = p + SIZEOF_FileIOSizeT
      in c\<lparr>ResponseDMAWriteDataBytes :=
             storeLE
               (storeLE (ResponseDMAWriteDataBytes c)
                  (resp + OFFSETOF_AckHeader_Result cfg) (SIZEOF_ErrorCodeT cfg) result)
               (resp + OFFSETOF_AckHeader_BytesServiced cfg) 4 bytes\<rparr>)"

text \<open>The completion of the response-meta read when the host's head and progress words
  are both \<open>h\<close>.\<close>

definition FetchedHead :: "int \<Rightarrow> BuffConnConfig \<Rightarrow> BuffConnConfig" where
  "FetchedHead h c = c\<lparr>ResponseDMAReadMetaBuff_Progress := h, ResponseDMAReadMetaBuff_Head := h\<rparr>"

text \<open>A response ring of 60 bytes, and a build without response batching.\<close>

definition tinyEngine :: EngineConfig where
  "tinyEngine = exEngine\<lparr>BACKEND_RESPONSE_BUFFER_SIZE := 60, DDS_RESPONSE_RING_BYTES := 60\<rparr>"

definition plainEngine :: EngineConfig where
  "plainEngine = exEngine\<lparr>RING_BUFFER_RESPONSE_BATCH_ENABLED := False\<rparr>"

text \<open>A connection whose heap holds the bytes \<open>0xEE\<close> behind the request staging buffer,
  after the host has written a write request with the id 7 at offset 4092 of its ring:
  the size prefix fills the last four bytes of the ring and the header starts the ring
  anew.\<close>

definition endRecordConn :: BuffConnConfig where
  "endRecordConn =
     ReceiveRequest exEngine 4092 (writeReq 7)
       (exConn\<lparr>RequestDMAReadDataBytes := (\<lambda>a. if a \<ge> 4096 then 0xEE else 0)\<rparr>)"

text \<open>Two reads at the start of the ring, the first of \<open>2 ^ 32 - 12\<close> bytes.\<close>

definition hugeReadConn :: BuffConnConfig where
  "hugeReadConn = ReceiveRequests exEngine 0 (readReq 1 4294967284) (readReq 2 8) exConn"

text \<open>One round of the engine on a connection: the host has written the record \<open>r\<close> at
  offset \<open>p\<close> of its request ring and the data read has completed; the pass executes
  it and returns; the file service completes the request, whose response is at offset
  \<open>q\<close>, with \<open>n\<close> serviced bytes; the completion sweep runs; the response-meta read
  completes with the host's head and progress words both \<open>h\<close>.\<close>

definition ServeRound :: "EngineConfig \<Rightarrow> int \<Rightarrow> RequestRecord \<Rightarrow> int \<Rightarrow> int \<Rightarrow> int \<Rightarrow> BuffConnConfig
    \<Rightarrow> BuffConnConfig option" where
  "ServeRound cfg p r q n h c =
     (case ExecuteRequests cfg (ReceiveRequest cfg p r c) of
        Some (Returned c1) \<Rightarrow>
          (case CheckAndProcessIOCompletions1 cfg (CompleteResponse cfg q 0 n c1) of
             Some c2 \<Rightarrow> Some (OnReadResponseMeta cfg (FetchedHead h c2))
           | None \<Rightarrow> None)
      | _ \<Rightarrow> None)"

section \<open>Properties of the connection slots\<close>


lemma ScanConns_Some:
  "ScanConns hit conns is = Inr (Some i) \<Longrightarrow> i \<in> set is \<and> i < length conns \<and> hit (conns ! i)"
  by (induction "is") (auto split: if_splits)



lemma FindConnId_ctrl:
  "FindConnId config cmId = Inr (Some (True, i)) \<Longrightarrow>
   ScanConns (\<lambda>c. CtrlRemoteCmId c = cmId) (CtrlConns config) [0 ..< MaxClients config] = Inr (Some i)"
  by (auto simp: FindConnId_def split: sum.splits option.splits)

lemma FindConnId_buff:
  "FindConnId config cmId = Inr (Some (False, i)) \<Longrightarrow>
   ScanConns (\<lambda>c. RemoteCmId c = cmId) (BuffConns config) [0 ..< MaxBuffs config] = Inr (Some i)"
  by (auto simp: FindConnId_def split: sum.splits option.splits)









text \<open>
  C9. On \<^verbatim>\<open>RDMA_CM_EVENT_ESTABLISHED\<close> for a connection id that \<^verbatim>\<open>FindConnId\<close> finds in
  a control or in a buffer slot, the handler sets the state of that slot to
  \<^verbatim>\<open>CONN_STATE_CONNECTED\<close> and leaves every other slot as it is; the slot is then among
  those that the completion-queue passes of its kind process.
\<close>

theorem OnEstablished_sets_connected:
  assumes "FindConnId config cmId = Inr (Some (isCtrl, i))"
  shows "\<exists>config'. OnEstablished config cmId = Inr config'
     \<and> (isCtrl \<longrightarrow> CtrlState (CtrlConns config' ! i) = CONN_STATE_CONNECTED
                    \<and> i \<in> set (CtrlConnsPolled config')
                    \<and> (\<forall>j. j \<noteq> i \<longrightarrow> CtrlConns config' ! j = CtrlConns config ! j)
                    \<and> BuffConns config' = BuffConns config)
     \<and> (\<not> isCtrl \<longrightarrow> State (BuffConns config' ! i) = CONN_STATE_CONNECTED
                    \<and> i \<in> set (BuffConnsPolled config')
                    \<and> (\<forall>j. j \<noteq> i \<longrightarrow> BuffConns config' ! j = BuffConns config ! j)
                    \<and> CtrlConns config' = CtrlConns config)"
proof (cases isCtrl)
  case True
  from assms True have "ScanConns (\<lambda>c. CtrlRemoteCmId c = cmId) (CtrlConns config)
      [0 ..< MaxClients config] = Inr (Some i)" by (simp add: FindConnId_ctrl)
  from ScanConns_Some[OF this] have i: "i < MaxClients config" "i < length (CtrlConns config)"
    by simp_all
  show ?thesis using assms True i by (simp add: OnEstablished_def CtrlConnsPolled_def)
next
  case False
  from assms False have "ScanConns (\<lambda>c. RemoteCmId c = cmId) (BuffConns config)
      [0 ..< MaxBuffs config] = Inr (Some i)" by (simp add: FindConnId_buff)
  from ScanConns_Some[OF this] have i: "i < MaxBuffs config" "i < length (BuffConns config)"
    by simp_all
  show ?thesis using assms False i by (simp add: OnEstablished_def BuffConnsPolled_def)
qed

theorem OnEstablished_sets_connected_witness:
  "AllocConns 1 1 = Inr freshConfig
   \<and> OnConnectRequestCtrl freshConfig 7 True = Inr acceptedConfig
   \<and> CtrlConnsPolled acceptedConfig = []
   \<and> FindConnId acceptedConfig 7 = Inr (Some (True, 0))
   \<and> (\<exists>config'. OnEstablished acceptedConfig 7 = Inr config'
         \<and> CtrlState (CtrlConns config' ! 0) = CONN_STATE_CONNECTED
         \<and> 0 \<in> set (CtrlConnsPolled config'))
   \<and> FindConnId twoSlots 5 = Inr (Some (False, 0))
   \<and> (\<exists>config'. OnEstablished twoSlots 5 = Inr config'
         \<and> State (BuffConns config' ! 0) = CONN_STATE_CONNECTED
         \<and> 0 \<in> set (BuffConnsPolled config'))"
proof -
  have a: "AllocConns 1 1 = Inr freshConfig"
    by (simp add: AllocConns_def freshConfig_def ZeroCtrlConn_def ZeroBuffConn_def)
  have r: "OnConnectRequestCtrl freshConfig 7 True = Inr acceptedConfig"
    by (simp add: OnConnectRequestCtrl_def SelectCtrlConn_def freshConfig_def acceptedConfig_def
        ZeroCtrlConn_def)
  have p: "CtrlConnsPolled acceptedConfig = []"
    by (simp add: CtrlConnsPolled_def acceptedConfig_def)
  have f7: "FindConnId acceptedConfig 7 = Inr (Some (True, 0))"
    by (simp add: FindConnId_def acceptedConfig_def)
  have f5: "FindConnId twoSlots 5 = Inr (Some (False, 0))"
    by (simp add: FindConnId_def twoSlots_def ZeroBuffConn_def ZeroCtrlConn_def numeral_2_eq_2)
  have e7: "\<exists>config'. OnEstablished acceptedConfig 7 = Inr config'
         \<and> CtrlState (CtrlConns config' ! 0) = CONN_STATE_CONNECTED
         \<and> 0 \<in> set (CtrlConnsPolled config')"
    using OnEstablished_sets_connected[OF f7] by auto
  have e5: "\<exists>config'. OnEstablished twoSlots 5 = Inr config'
         \<and> State (BuffConns config' ! 0) = CONN_STATE_CONNECTED
         \<and> 0 \<in> set (BuffConnsPolled config')"
    using OnEstablished_sets_connected[OF f5] by auto
  show ?thesis by (intro conjI a r p f7 e7 f5 e5)
qed

section \<open>Properties of the completion handlers\<close>



text \<open>
  C4. The claim: on a \<^verbatim>\<open>BUFF_READ_RESPONSE_META\<close> completion with completed responses
  waiting, the handler posts the response-data writes, the write of the new \<open>TailC\<close> and
  advances \<open>TailC\<close> only when the range of the host's ring that the responses go to is
  free, and else posts the response-meta read again.

  The handler takes the range for free when the distance from \<open>TailC\<close> to the fetched
  head is not smaller than the number of waiting bytes, and it takes the distance to be
  the whole ring when \<open>TailC\<close> is the head. Responses that fill the ring exactly bring
  \<open>TailC\<close> back to the head of a host that has consumed nothing, and the next responses
  are written over them. On a ring of 60 bytes, three rounds in each of which the fetched
  head is 0: a read of 8 bytes (a batch of 36 bytes), a write (24 bytes) and a write (24
  bytes). The handler posts the data writes of 36 bytes to offset 0, of 24 bytes to
  offset 36 and of 24 bytes to offset 0 again: 84 bytes into a ring of 60 bytes of which
  the host has freed none.
\<close>

theorem OnReadResponseMeta_overwrites_unconsumed:
  "DDS_RESPONSE_RING_BYTES tinyEngine = 60
   \<and> (case ServeRound tinyEngine 0 (readReq 1 8) 12 8 0 exConn of
        Some c1 \<Rightarrow>
          HostWrites (ResponseRing_DataBaseAddr c1) (Posted c1) = [(0, 36)]
          \<and> ResponseRing_TailC c1 = 36
          \<and> (case ServeRound tinyEngine 32 (writeReq 2) 48 16 0 c1 of
                Some c2 \<Rightarrow>
                  HostWrites (ResponseRing_DataBaseAddr c2) (Posted c2) = [(0, 36), (36, 24)]
                  \<and> ResponseRing_TailC c2 = 0
                  \<and> (case ServeRound tinyEngine 80 (writeReq 3) 12 16 0 c2 of
                        Some c3 \<Rightarrow>
                          HostWrites (ResponseRing_DataBaseAddr c3) (Posted c3)
                            = [(0, 36), (36, 24), (0, 24)]
                          \<and> Posted c3 =
                              [ResponseDMAReadMetaWr,
                               ResponseDMAWriteDataWr 0x20000 0x9000 36, ResponseDMAWriteMetaWr 36,
                               ResponseDMAReadMetaWr,
                               ResponseDMAWriteDataWr 0x20024 0x9024 24, ResponseDMAWriteMetaWr 0,
                               ResponseDMAReadMetaWr,
                               ResponseDMAWriteDataWr 0x20000 0x9000 24, ResponseDMAWriteMetaWr 24]
                          \<and> ResponseRing_TailC c3 = 24
                      | None \<Rightarrow> False)
              | None \<Rightarrow> False)
      | None \<Rightarrow> False)"
  by code_simp

section \<open>Properties of the request execution\<close>

text \<open>
  C5. The claim: a pass of \<^verbatim>\<open>ExecuteRequests\<close> over a received range of framed request
  records, whose sizes add up to at most \<open>DDS_REQUEST_RING_BYTES - 1\<close>, leaves in the
  response ring one stub for each record, with the request ids of the records in the
  order of the records.

  The pass reads the header of a record as one object right behind the size prefix and
  does not wrap the address at the end of the staging buffer, as it does for the payload
  and for the next record. For a record whose prefix fills the last four bytes of the
  ring (a write with the id 7 at offset 4092; the host's ring holds it around the end)
  the header is read from the memory behind the buffer: the stub carries the request id
  \<open>0xEEEE\<close> that lies there, and the context the byte count \<open>0xEEEEEEEE\<close> (first
  conjunct). The size of the response of a read is computed in 32 bits with no check:
  for a read of \<open>2 ^ 32 - 12\<close> bytes it is 0, the stub of the next record is written
  over the stub of that read, and after the pass, which returns, the ring holds the one
  stub of request 2 for the two requests that were submitted, whose contexts both point
  at it (second conjunct).
\<close>

theorem ExecuteRequests_loses_request_ids:
  "(HostRecordAt exEngine endRecordConn 4092 = writeReq 7
    \<and> RequestDMAReadDataSize endRecordConn = 48
    \<and> RequestRing_Head endRecordConn = 44
    \<and> (case ExecuteRequests exEngine endRecordConn of
          Some (Returned c') \<Rightarrow>
            map StubView (ResponseFrames exEngine c' 12 1)
              = [(12, 0xEEEE, DDS_ERROR_CODE_IO_PENDING exEngine)]
            \<and> map (\<lambda>x. TotalSize (DataBuffer x)) (take 1 (PendingDataPlaneRequests c'))
              = [0xEEEEEEEE]
            \<and> Submitted c' = [SubmitBatch 0 1 0]
        | _ \<Rightarrow> False))
   \<and> (HostRecordAt exEngine hugeReadConn 0 = readReq 1 4294967284
    \<and> HostRecordAt exEngine hugeReadConn 32 = readReq 2 8
    \<and> RequestDMAReadDataSize hugeReadConn = 64
    \<and> (case ExecuteRequests exEngine hugeReadConn of
          Some (Returned c') \<Rightarrow>
            ResponseRing_TailA c' = 36
            \<and> ResponseSizeAt c' 0 = 36
            \<and> map StubView (ResponseFrames exEngine c' 12 1)
              = [(24, 2, DDS_ERROR_CODE_IO_PENDING exEngine)]
            \<and> map Response (take 2 (PendingDataPlaneRequests c')) = [16, 16]
            \<and> Submitted c' = [SubmitBatch 0 2 0]
        | _ \<Rightarrow> False))"
  by code_simp

text \<open>
  C6. The claim: a pass of \<^verbatim>\<open>ExecuteRequests\<close> exits when the bytes it has reserved reach
  the free capacity of the response ring, and otherwise advances \<open>TailA\<close> to the end of
  the reservation, so that \<open>TailA\<close> never overtakes the position up to which the
  responses were consumed.

  The capacity is measured from \<open>TailA\<close> forward to \<open>TailB\<close>. The responses between
  \<open>TailC\<close> and \<open>TailB\<close> are completed but not yet written to the host, and the host has
  consumed nothing behind \<open>TailC\<close>; the check does not count them. On a ring of 60 bytes:
  a pass over two writes reserves the bytes 0 to 36, the two requests are completed and
  the sweep moves \<open>TailB\<close> to 36 (the tails are in order: \<open>TailC = 0\<close>, \<open>TailB = TailA =
  36\<close>). A second pass over two writes finds the capacity 60, reserves 36 bytes from 36
  and returns with \<open>TailA = 12\<close>, beyond \<open>TailC\<close>; the size of the waiting batch at offset
  0 has been replaced by the stub of request 4.
\<close>

theorem ExecuteRequests_overruns_unpublished:
  "(case ExecuteRequests tinyEngine (ReceiveRequests tinyEngine 0 (writeReq 1) (writeReq 2) exConn) of
      Some (Returned c1) \<Rightarrow>
        (case CheckAndProcessIOCompletions1 tinyEngine
                (CompleteResponse tinyEngine 24 0 16 (CompleteResponse tinyEngine 12 0 16 c1)) of
           Some c2 \<Rightarrow>
             TailsInOrder tinyEngine c2
             \<and> ResponseRing_TailC c2 = 0 \<and> ResponseRing_TailB c2 = 36 \<and> ResponseRing_TailA c2 = 36
             \<and> ResponseSizeAt c2 0 = 36
             \<and> respRingCapacity tinyEngine c2 = 60
             \<and> (case ExecuteRequests tinyEngine
                        (ReceiveRequests tinyEngine 96 (writeReq 3) (writeReq 4) c2) of
                   Some (Returned c3) \<Rightarrow>
                     ResponseRing_TailC c3 = 0 \<and> ResponseRing_TailB c3 = 36
                     \<and> ResponseRing_TailA c3 = 12
                     \<and> \<not> TailsInOrder tinyEngine c3
                     \<and> ResponseSizeAt c3 0 = 12
                     \<and> StubView (ResponseSizeAt c3 0, ResponseHeaderAt tinyEngine c3 0)
                         = (12, 4, DDS_ERROR_CODE_IO_PENDING tinyEngine)
                 | _ \<Rightarrow> False)
         | None \<Rightarrow> False)
    | _ \<Rightarrow> False)"
  by code_simp

section \<open>Properties of the completion sweep\<close>

text \<open>
  C3. The claim: a batch is published (the response-meta read that leads to the writes
  to the host is posted) only after the sweep has advanced \<open>TailB\<close> past every response
  of the batch with a result other than \<^verbatim>\<open>IO_PENDING\<close>, and a response whose result is
  still \<^verbatim>\<open>IO_PENDING\<close> is never written to the host.

  The code breaks this in two ways. Without response batching the sweep does not stop
  at a pending response: it overwrites the result with \<^verbatim>\<open>DDS_ERROR_CODE_SUCCESS\<close> and 4
  serviced bytes, advances \<open>TailB\<close> to \<open>TailA\<close> and posts the response-meta read (first
  conjunct: two writes are executed and swept before the file service has completed
  either). With response batching the sweep does stop, but \<^verbatim>\<open>ExecuteRequests\<close> measures
  the free space up to \<open>TailB\<close>, so a later pass can put its stubs on top of a completed
  batch that still waits for publication (second conjunct: on a ring of 60 bytes a batch
  of two writes is executed, completed and swept; a second pass of two writes wraps and
  writes the stub of request 4, result \<^verbatim>\<open>IO_PENDING\<close>, at offset 0; the response-meta
  completion then posts the write of the bytes 0 to 36 to the host).
\<close>

theorem pending_response_reaches_host:
  "(case ExecuteRequests plainEngine (ReceiveRequests plainEngine 0 (writeReq 1) (writeReq 2) exConn) of
      Some (Returned c1) \<Rightarrow>
        map StubView (ResponseFrames plainEngine c1 0 2) = [(12, 1, 1), (12, 2, 1)]
        \<and> DDS_ERROR_CODE_IO_PENDING plainEngine = 1
        \<and> (case CheckAndProcessIOCompletions1 plainEngine c1 of
              Some c2 \<Rightarrow>
                ResponseRing_TailB c1 = 0 \<and> ResponseRing_TailB c2 = 24
                \<and> Posted c2 = [ResponseDMAReadMetaWr]
                \<and> map snd (ResponseFrames plainEngine c2 0 2)
                    = [\<lparr>RequestId = 1, Result = 0, BytesServiced = 4\<rparr>,
                       \<lparr>RequestId = 2, Result = 0, BytesServiced = 4\<rparr>]
            | None \<Rightarrow> False)
    | _ \<Rightarrow> False)
   \<and> (case ExecuteRequests tinyEngine (ReceiveRequests tinyEngine 0 (writeReq 1) (writeReq 2) exConn) of
      Some (Returned c1) \<Rightarrow>
        (case CheckAndProcessIOCompletions1 tinyEngine
                (CompleteResponse tinyEngine 24 0 16 (CompleteResponse tinyEngine 12 0 16 c1)) of
           Some c2 \<Rightarrow>
             ResponseRing_TailC c2 = 0 \<and> ResponseRing_TailB c2 = 36 \<and> ResponseRing_TailA c2 = 36
             \<and> Posted c2 = [ResponseDMAReadMetaWr]
             \<and> (case ExecuteRequests tinyEngine
                        (ReceiveRequests tinyEngine 96 (writeReq 3) (writeReq 4) c2) of
                   Some (Returned c3) \<Rightarrow>
                     (let c4 = OnReadResponseMeta tinyEngine
                                 (c3\<lparr>ResponseDMAReadMetaBuff_Progress := 0,
                                     ResponseDMAReadMetaBuff_Head := 0\<rparr>)
                      in Posted c4 = [ResponseDMAReadMetaWr,
                                      ResponseDMAWriteDataWr 0x20000 0x9000 36,
                                      ResponseDMAWriteMetaWr 36]
                         \<and> StubView (ResponseSizeAt c4 0, ResponseHeaderAt tinyEngine c4 0)
                             = (12, 4, DDS_ERROR_CODE_IO_PENDING tinyEngine))
                 | _ \<Rightarrow> False)
         | None \<Rightarrow> False)
    | _ \<Rightarrow> False)"
  by code_simp

section \<open>Properties of the cache table\<close>

text \<open>
  C2. The claim: when \<^verbatim>\<open>AddToCacheTable\<close> hits the depth bound and returns the "full"
  error, the table (hash stamps and elements of every bucket) is what it was before the
  call, and the element the undo walk ends with is the input item.

  The code does not do this. The undo loop swaps the carrier's hashes back and then
  stamps the slot with \<^verbatim>\<open>carrier->Hash2\<close>, where the insertion loop (and the lookup)
  use the hash that addresses the bucket, \<^verbatim>\<open>Hash1\<close>. On the table \<open>fullTbl\<close>, reached
  from the empty table by two successful insertions, the insertion of key 3 displaces
  both residents, hits the depth bound of 2 and returns "full" with the closing assertion
  satisfied; the elements are back in place, but the stamps 4 and 5 have become 7 and 6,
  and the keys 1 and 2, found before the call, are no longer found.
\<close>

theorem AddToCacheTable_full_rewrites_stamps:
  "AddToCacheTable fullCfg (InitCacheTable fullCfg) \<lparr>Key = 1, Value = 100\<rparr> = AddOk fullTbl1
   \<and> AddToCacheTable fullCfg fullTbl1 \<lparr>Key = 2, Value = 200\<rparr> = AddOk fullTbl
   \<and> AddToCacheTable fullCfg fullTbl \<lparr>Key = 3, Value = 300\<rparr> = AddFull fullTblAfter
   \<and> fullTblAfter \<noteq> fullTbl
   \<and> map Elements fullTblAfter = map Elements fullTbl
   \<and> map HashValues fullTbl = [[4], [5]]
   \<and> map HashValues fullTblAfter = [[7], [6]]
   \<and> LookUpCacheTable fullCfg fullTbl 1 = Some \<lparr>Key = 1, Value = 100\<rparr>
   \<and> LookUpCacheTable fullCfg fullTbl 2 = Some \<lparr>Key = 2, Value = 200\<rparr>
   \<and> LookUpCacheTable fullCfg fullTblAfter 1 = None
   \<and> LookUpCacheTable fullCfg fullTblAfter 2 = None"
  by code_simp

text \<open>
  C7. The claim: after a sequence of successful insertions, the lookup of a key that is
  in the table returns the value most recently inserted for it; inserting a key again
  updates it in place and creates no second copy.

  The code misses the case of a key that lives in its second bucket: the insertion loop
  looks for the key in the bucket of the carrier's first hash only. Insert key 1 with
  value 100, then key 2 (which displaces key 1 to its second bucket), then key 1 with
  value 111. The third call puts the new copy in bucket 1, displaces key 2 to bucket 2,
  which displaces the old copy of key 1, and the old copy, carried back to bucket 1,
  matches the new one and overwrites its value ("key already exists, update the
  value"). All three calls return 0, and the lookup of key 1 returns 100.
\<close>

theorem AddToCacheTable_stale_value_wins:
  "AddToCacheTable dupCfg (InitCacheTable dupCfg) \<lparr>Key = 1, Value = 100\<rparr> = AddOk dupTbl1
   \<and> AddToCacheTable dupCfg dupTbl1 \<lparr>Key = 2, Value = 200\<rparr> = AddOk dupTbl2
   \<and> AddToCacheTable dupCfg dupTbl2 \<lparr>Key = 1, Value = 111\<rparr> = AddOk dupTbl3
   \<and> LookUpCacheTable dupCfg dupTbl3 1 = Some \<lparr>Key = 1, Value = 100\<rparr>"
  by code_simp

text \<open>
  C8. The claim: in the bucket granularity, \<^verbatim>\<open>AddToCacheTable\<close> and
  \<^verbatim>\<open>DeleteFromCacheTable\<close> set a bucket's flag before they change the bucket and leave
  every flag clear on return, on every exit path, the second-hash branch of the deletion
  included.

  The deletion's second-hash branch ends with \<^verbatim>\<open>targetBucket->Occ = 1\<close> where every
  other exit writes 0. In \<open>dupTbl2\<close> key 1 lives in its second bucket (bucket 2): deleting
  it clears the slot and returns with the flag of bucket 2 set, so that a lookup skips
  the bucket until another writer passes through it.
\<close>

theorem DeleteFromCacheTable_second_hash_leaves_Occ:
  "DeleteFromCacheTable dupCfg dupTbl2 1 = dupTblDeleted
   \<and> map Occ dupTbl2 = [False, False, False, False]
   \<and> map Occ dupTblDeleted = [False, False, True, False]
   \<and> bucketBusy dupCfg (dupTblDeleted ! 2)"
  by code_simp

end
